theory Spec2Isabelle
  imports Main "HOL-Library.Sublist" "HOL-Library.Multiset"
begin

section \<open>The notes document\<close>

text \<open>
  The persistence engine of the sidebar notes extension lives in the class
  \<^verbatim>\<open>StorageService\<close>.  Its documents are values of the interface \<^verbatim>\<open>NotesData\<close>:
  \<^verbatim>\<open>
  export interface NotesData {
    version: number;
    lastModified: string; // ISO timestamp
    deviceId: string;
    state: 'editor' | 'render';
    currentPage: number;
    pages: string[];
    bookmarks?: boolean[];
    metadata: { totalPages: number; createdAt: string;
                syncStatus?: 'synced' | 'pending' | 'conflict'; fileModTime?: number; };
  }
  \<close>
  Numbers are modelled as \<open>int\<close>.  An optional property is an \<open>option\<close>.  The properties
  \<^verbatim>\<open>state\<close> and \<^verbatim>\<open>currentPage\<close> are options as well: \<^verbatim>\<open>convertLegacyData\<close> copies them
  from an object that \<^verbatim>\<open>JSON.parse\<close> produced and that nobody has validated, so they can
  be \<^verbatim>\<open>undefined\<close> at run time.  For \<^verbatim>\<open>currentPage\<close> the value \<open>None\<close> stands for
  "not a number" (\<^verbatim>\<open>undefined\<close>, or the \<^verbatim>\<open>NaN\<close> that \<^verbatim>\<open>Math.min\<close> makes of it).
\<close>

datatype ui_state = Editor | Render

datatype sync_status = Synced | Pending | Conflict

record Metadata =
  totalPages :: int
  createdAt :: string
  syncStatus :: "sync_status option"
  fileModTime :: "int option"

record NotesData =
  version :: int
  lastModified :: string
  deviceId :: string
  state :: "ui_state option"
  currentPage :: "int option"
  pages :: "string list"
  bookmarks :: "bool list option"
  metadata :: Metadata

text \<open>
  \<^verbatim>\<open>LegacyNotesData\<close> is the shape of the predecessor's webview state.  The model keeps
  the three properties \<^verbatim>\<open>convertLegacyData\<close> reads.
\<close>

record LegacyNotesData =
  legacy_state :: "ui_state option"
  legacy_currentPage :: "int option"
  legacy_pages :: "string list"

subsection \<open>Parsed JSON\<close>

text \<open>
  \<^verbatim>\<open>JSON.parse\<close> returns a value of type \<^verbatim>\<open>any\<close>.  A parsed JSON object is modelled with
  the properties of \<^verbatim>\<open>NotesData\<close>, each of them possibly absent and otherwise of the
  declared type.  \<open>PNull\<close> is the JSON value \<^verbatim>\<open>null\<close>, \<open>PPrimitive\<close> a number, string or
  boolean; an array is an object none of whose properties is present.

  The property \<^verbatim>\<open>pages\<close> is the exception, because \<^verbatim>\<open>loadNotes\<close> converts a legacy object
  before anything has looked at it: \<^verbatim>\<open>pages\<close> is an array of texts (\<open>PagesArray\<close>) or any other
  JSON value but \<^verbatim>\<open>null\<close> (\<open>PagesOther\<close>): a number, a boolean, a string or an object with
  its members.  \<open>None\<close> says that the property is absent or \<^verbatim>\<open>null\<close>.  JSON numbers are
  whole numbers in this model.
\<close>

datatype json = JNull | JBool bool | JNum int | JStr string | JArr "json list"
  | JObj "(string \<times> json) list"

datatype other_json = ONum int | OBool bool | OStr string | OObj "(string \<times> json) list"

datatype pages_json = PagesArray "string list" | PagesOther other_json

record json_metadata =
  j_totalPages :: "int option"
  j_createdAt :: "string option"
  j_syncStatus :: "sync_status option"
  j_fileModTime :: "int option"

record json_doc =
  j_version :: "int option"
  j_lastModified :: "string option"
  j_deviceId :: "string option"
  j_state :: "ui_state option"
  j_currentPage :: "int option"
  j_pages :: "pages_json option"
  j_bookmarks :: "bool list option"
  j_metadata :: "json_metadata option"

datatype parsed = PNull | PPrimitive | PObject json_doc

text \<open>
  \<^verbatim>\<open>convertLegacyData\<close> accepts whatever \<^verbatim>\<open>pages\<close> the parsed object has.  When that is not
  an array, the object it returns is not a \<^verbatim>\<open>NotesData\<close>: \<^verbatim>\<open>pages\<close> is the value found,
  \<^verbatim>\<open>totalPages\<close> is its \<^verbatim>\<open>length\<close> property (\<open>None\<close> is \<^verbatim>\<open>undefined\<close>), and the bookmarks
  are an array that later assignments may leave with empty slots (\<open>None\<close>).
\<close>

record UncheckedNotes =
  u_version :: int
  u_lastModified :: string
  u_deviceId :: string
  u_state :: "ui_state option"
  u_currentPage :: "int option"
  u_pages :: other_json
  u_bookmarks :: "bool option list"
  u_totalPages :: "json option"
  u_createdAt :: string
  u_syncStatus :: "sync_status option"
  u_fileModTime :: "int option"

text \<open>What \<^verbatim>\<open>loadNotes\<close>, \<^verbatim>\<open>toggleBookmark\<close> and \<^verbatim>\<open>setBookmarks\<close> return.\<close>

datatype loaded = Null | Notes NotesData | Unchecked UncheckedNotes

subsection \<open>Files\<close>

text \<open>
  A file is its text and its modification time (\<^verbatim>\<open>mtimeMs\<close>, in milliseconds).  A folder
  is the list of its entries, each name once; the order of that list has no meaning, and
  the order in which \<^verbatim>\<open>readdir\<close> lists the names is the library's.
\<close>

record stored_file =
  content :: string
  mtime :: int

type_synonym dir = "(string \<times> stored_file) list"

subsection \<open>The JavaScript library\<close>

text \<open>
  The library functions the engine calls are parameters of the model: what \<^verbatim>\<open>JSON.parse\<close>
  returns for a text (\<open>None\<close>: it throws a \<^verbatim>\<open>SyntaxError\<close>), what
  \<^verbatim>\<open>JSON.stringify(d, null, 2)\<close> returns for a document, what \<^verbatim>\<open>new Date(s).getTime()\<close>
  returns for a string (\<open>None\<close> is \<^verbatim>\<open>NaN\<close>, the time of an invalid date), what
  \<^verbatim>\<open>toISOString()\<close> prints for an instant given in milliseconds, and in which order
  \<^verbatim>\<open>readdir\<close> lists the names in a folder.  \<open>number_ge i x\<close> and \<open>number_lt i x\<close> are
  the values of \<^verbatim>\<open>i >= x\<close> and \<^verbatim>\<open>i < x\<close> for a number \<open>i\<close> and a JSON value \<open>x\<close> that is
  not a number, which the language converts to a number first.
\<close>

record js_lib =
  JSON_parse :: "string \<Rightarrow> parsed option"
  JSON_stringify :: "NotesData \<Rightarrow> string"
  Date_getTime :: "string \<Rightarrow> int option"
  toISOString :: "int \<Rightarrow> string"
  JSON_stringify_unchecked :: "UncheckedNotes \<Rightarrow> string"
  number_ge :: "int \<Rightarrow> json \<Rightarrow> bool"
  number_lt :: "int \<Rightarrow> json \<Rightarrow> bool"
  readdir :: "dir \<Rightarrow> string list"

text \<open>\<^verbatim>\<open>a > b\<close> on two times: a comparison with \<^verbatim>\<open>NaN\<close> is false.\<close>

definition js_gt :: "int option \<Rightarrow> int option \<Rightarrow> bool" where
  "js_gt a b = (case a of None \<Rightarrow> False
                | Some x \<Rightarrow> (case b of None \<Rightarrow> False | Some y \<Rightarrow> x > y))"

text \<open>
  \<^verbatim>\<open>new Set(xs)\<close> adds the elements in order and ignores one that is already a member;
  \<^verbatim>\<open>Array.from\<close> lists the members in insertion order.
\<close>

definition Set_add :: "'a list \<Rightarrow> 'a \<Rightarrow> 'a list" where
  "Set_add s x = (if x \<in> set s then s else s @ [x])"

definition Array_from_Set :: "'a list \<Rightarrow> 'a list" where
  "Array_from_Set xs = foldl Set_add [] xs"

text \<open>
  \<^verbatim>\<open>new Map(entries)\<close> sets the entries in order, so the last entry of a key is the one
  \<^verbatim>\<open>get\<close> returns.
\<close>

definition Map_from_entries :: "('k \<times> 'v) list \<Rightarrow> 'k \<Rightarrow> 'v option" where
  "Map_from_entries es = map_of (rev es)"

text \<open>\<^verbatim>\<open>xs.map((x, idx) => [x, idx])\<close>: each element with its index.\<close>

definition with_index :: "'a list \<Rightarrow> ('a \<times> nat) list" where
  "with_index xs = zip xs [0..<length xs]"

text \<open>\<^verbatim>\<open>Math.min(c, k)\<close> where \<open>c\<close> may be \<^verbatim>\<open>undefined\<close>.\<close>

definition Math_min :: "int option \<Rightarrow> int \<Rightarrow> int option" where
  "Math_min c k = (case c of None \<Rightarrow> None | Some x \<Rightarrow> Some (min x k))"

text \<open>
  \<^verbatim>\<open>xs.slice(start)\<close>: a negative start counts from the end of the array.
\<close>

definition slice_from :: "int \<Rightarrow> 'a list \<Rightarrow> 'a list" where
  "slice_from start xs =
     (if start < 0 then drop (nat (max (int (length xs) + start) 0)) xs
      else drop (nat start) xs)"

section \<open>The merge\<close>

text \<open>
  \<^verbatim>\<open>
  async mergeNotes(localData: NotesData, remoteData: NotesData): Promise<NotesData> {
    const allPages = Array.from(new Set([...localData.pages, ...remoteData.pages]));
    const localTime = new Date(localData.lastModified).getTime();
    const remoteTime = new Date(remoteData.lastModified).getTime();
    const newerData = localTime > remoteTime ? localData : remoteData;
    const mergedData: NotesData = {
      version: Math.max(localData.version, remoteData.version),
      lastModified: new Date().toISOString(),
      deviceId: this.deviceId,
      state: newerData.state,
      currentPage: Math.min(newerData.currentPage, allPages.length - 1),
      pages: allPages,
      bookmarks: new Array(allPages.length).fill(false),
      metadata: { totalPages: allPages.length,
        createdAt: localData.metadata.createdAt || remoteData.metadata.createdAt,
        syncStatus: 'synced' } };
    const pageIndexMap = new Map(allPages.map((page, idx) => [page, idx]));
    if (localData.bookmarks) {
      localData.pages.forEach((page, idx) => {
        const newIdx = pageIndexMap.get(page);
        if (newIdx !== undefined && localData.bookmarks![idx]) {
          mergedData.bookmarks![newIdx] = true; } }); }
    if (remoteData.bookmarks) { ... the same for remoteData ... }
    return mergedData;
  }
  \<close>
  The instance field \<^verbatim>\<open>this.deviceId\<close> (\<open>dev\<close>) and the clock reading \<open>now\<close>
  (milliseconds since the epoch) are arguments.  Reading \<^verbatim>\<open>bookmarks[idx]\<close> beyond the end of the array gives \<^verbatim>\<open>undefined\<close>,
  which is falsy.
\<close>

definition markBookmarks ::
  "(string \<Rightarrow> nat option) \<Rightarrow> string list \<Rightarrow> bool list option \<Rightarrow> bool list \<Rightarrow> bool list" where
  "markBookmarks pageIndexMap srcPages srcBookmarks merged =
     (case srcBookmarks of
        None \<Rightarrow> merged
      | Some bs \<Rightarrow>
          foldl (\<lambda>acc (page, idx).
                   (case pageIndexMap page of
                      None \<Rightarrow> acc
                    | Some newIdx \<Rightarrow>
                        if idx < length bs \<and> bs ! idx then acc[newIdx := True] else acc))
                merged (with_index srcPages))"

definition mergeNotes :: "js_lib \<Rightarrow> int \<Rightarrow> string \<Rightarrow> NotesData \<Rightarrow> NotesData \<Rightarrow> NotesData" where
  "mergeNotes lib now dev localData remoteData =
     (let allPages = Array_from_Set (pages localData @ pages remoteData);
          localTime = Date_getTime lib (lastModified localData);
          remoteTime = Date_getTime lib (lastModified remoteData);
          newerData = (if js_gt localTime remoteTime then localData else remoteData);
          pageIndexMap = Map_from_entries (with_index allPages)
      in \<lparr> version = max (version localData) (version remoteData),
           lastModified = toISOString lib now,
           deviceId = dev,
           state = state newerData,
           currentPage = Math_min (currentPage newerData) (int (length allPages) - 1),
           pages = allPages,
           bookmarks =
             Some (markBookmarks pageIndexMap (pages remoteData) (bookmarks remoteData)
                    (markBookmarks pageIndexMap (pages localData) (bookmarks localData)
                       (replicate (length allPages) False))),
           metadata = \<lparr> totalPages = int (length allPages),
                        createdAt = (if createdAt (metadata localData) \<noteq> []
                                     then createdAt (metadata localData)
                                     else createdAt (metadata remoteData)),
                        syncStatus = Some Synced,
                        fileModTime = None \<rparr> \<rparr>)"

text \<open>
  The page union in the words of the specification: go through the pages in order and
  keep the first occurrence of each page text.
\<close>

fun first_occurrences :: "'a list \<Rightarrow> 'a list" where
  "first_occurrences [] = []"
| "first_occurrences (x # xs) = x # first_occurrences (removeAll x xs)"


section \<open>Configuration and the service state\<close>

text \<open>
  The disk holds the notes file \<^verbatim>\<open>sidebar-notes.json\<close> and the folder
  \<^verbatim>\<open>sidebar-notes-backups\<close> beside it.  A \<open>world\<close> is the disk together with the two
  instance fields of the service, \<^verbatim>\<open>deviceId\<close> and \<^verbatim>\<open>lastKnownModTime\<close> (initially 0).
  Every operation reads the clock once (\<open>now\<close>); a file written or copied at \<open>now\<close> gets
  that modification time.  The folder of the notes file itself is not modelled, so
  \<^verbatim>\<open>ensureStorageDirectory\<close> has no effect here.
\<close>

record world =
  this_deviceId :: string
  lastKnownModTime :: int
  notesFile :: "stored_file option"
  backupDir :: "dir option"

datatype conflict_policy = Timestamp | Manual

record Config =
  backup_enabled :: bool
  backup_maxBackups :: int
  sync_conflictResolution :: conflict_policy

datatype error =
    SyntaxError
  | TypeError
  | RangeError
  | ENOENT
  | Invalid_notes_data_format
  | Invalid_backup_data_format
  | CONFLICT_DETECTED
  | CONFLICT_EXTERNAL_NEWER

definition writeFile :: "string \<Rightarrow> int \<Rightarrow> world \<Rightarrow> world" where
  "writeFile txt now w = w\<lparr>notesFile := Some \<lparr>content = txt, mtime = now\<rparr>\<rparr>"

definition dir_put :: "string \<Rightarrow> stored_file \<Rightarrow> dir \<Rightarrow> dir" where
  "dir_put name f d =
     (if name \<in> fst ` set d then map (\<lambda>(n, g). if n = name then (n, f) else (n, g)) d
      else d @ [(name, f)])"

definition unlink :: "dir \<Rightarrow> string \<Rightarrow> dir" where
  "unlink d name = filter (\<lambda>(n, g). n \<noteq> name) d"

definition ensureBackupDirectory :: "world \<Rightarrow> world" where
  "ensureBackupDirectory w =
     (case backupDir w of None \<Rightarrow> w\<lparr>backupDir := Some []\<rparr> | Some d \<Rightarrow> w)"

text \<open>\<^verbatim>\<open>fs.promises.copyFile(notesPath, backupPath)\<close>, for the notes file \<open>f\<close> already found.\<close>

definition copyFile :: "stored_file \<Rightarrow> string \<Rightarrow> int \<Rightarrow> world \<Rightarrow> world" where
  "copyFile f backupFileName now w =
     w\<lparr>backupDir :=
          map_option (dir_put backupFileName \<lparr>content = content f, mtime = now\<rparr>) (backupDir w)\<rparr>"

text \<open>\<^verbatim>\<open>s.replace(/[:.]/g, '-')\<close>\<close>

definition replace_colons_dots :: "string \<Rightarrow> string" where
  "replace_colons_dots s = map (\<lambda>c. if c = CHR '':'' \<or> c = CHR ''.'' then CHR ''-'' else c) s"

section \<open>Backups\<close>

text \<open>
  \<^verbatim>\<open>
  private async cleanupOldBackups(): Promise<void> {
    try {
      const files = await fs.promises.readdir(backupDir);
      const backupFiles = files
        .filter((file) => file.startsWith('backup-') && file.endsWith('.json'))
        .map((file) => ({ name: file, path: ..., stat: fs.statSync(...) }))
        .sort((a, b) => b.stat.mtime.getTime() - a.stat.mtime.getTime());
      const filesToDelete = backupFiles.slice(config.backup.maxBackups);
      for (const file of filesToDelete) { await fs.promises.unlink(file.path); }
    } catch (error) { console.warn('Failed to cleanup old backups:', error); }
  }
  \<close>
  \<^verbatim>\<open>readdir\<close> gives the names in the order of the library; \<^verbatim>\<open>statSync\<close> throws when a
  name is not in the folder, and then nothing is deleted.  \<^verbatim>\<open>sort\<close> is stable, so sorting
  with this comparator is a stable sort by descending modification time.
\<close>

definition isBackupFile :: "string \<Rightarrow> bool" where
  "isBackupFile name = (prefix ''backup-'' name \<and> suffix ''.json'' name)"

definition statAll :: "dir \<Rightarrow> string list \<Rightarrow> dir option" where
  "statAll d names = those (map (\<lambda>n. map_option (Pair n) (map_of d n)) names)"

definition backupFiles :: "dir \<Rightarrow> string list \<Rightarrow> dir option" where
  "backupFiles d files =
     map_option (sort_key (\<lambda>(n, f). - mtime f)) (statAll d (filter isBackupFile files))"

definition cleanupOldBackups :: "js_lib \<Rightarrow> Config \<Rightarrow> world \<Rightarrow> world" where
  "cleanupOldBackups lib cfg w =
     (case backupDir w of
        None \<Rightarrow> w
      | Some d \<Rightarrow>
          (case backupFiles d (readdir lib d) of
             None \<Rightarrow> w
           | Some sortedFiles \<Rightarrow>
               (let filesToDelete = slice_from (backup_maxBackups cfg) sortedFiles
                in w\<lparr>backupDir := Some (foldl unlink d (map fst filesToDelete))\<rparr>)))"

text \<open>
  \<^verbatim>\<open>
  async createBackup(): Promise<string | null> {
    const config = getConfig();
    if (!config.backup.enabled) { return null; }
    const notesPath = this.getNotesFilePath();
    try {
      await fs.promises.access(notesPath);
      await this.ensureBackupDirectory();
      const timestamp = new Date().toISOString().replace(/[:.]/g, '-').slice(0, 19);
      const backupFileName = `backup-${timestamp}.json`;
      const backupPath = path.join(this.getBackupDirectoryPath(), backupFileName);
      await fs.promises.copyFile(notesPath, backupPath);
      await this.cleanupOldBackups();
      return backupPath;
    } catch (error) {
      if ((error as NodeJS.ErrnoException).code === 'ENOENT') { return null; }
      throw error;
    }
  }
  \<close>
  Both variants of the service have this method, with the same text.  The result is the
  name of the backup file.
\<close>

definition backupFileName :: "js_lib \<Rightarrow> int \<Rightarrow> string" where
  "backupFileName lib now =
     ''backup-'' @ take 19 (replace_colons_dots (toISOString lib now)) @ ''.json''"

definition createBackup :: "js_lib \<Rightarrow> Config \<Rightarrow> int \<Rightarrow> world \<Rightarrow> string option \<times> world" where
  "createBackup lib cfg now w =
     (if \<not> backup_enabled cfg then (None, w)
      else (case notesFile w of
              None \<Rightarrow> (None, w)
            | Some f \<Rightarrow>
                (let w1 = ensureBackupDirectory w;
                     w2 = copyFile f (backupFileName lib now) now w1;
                     w3 = cleanupOldBackups lib cfg w2
                 in (Some (backupFileName lib now), w3))))"


section \<open>Loading and saving\<close>

text \<open>
  \<^verbatim>\<open>
  convertLegacyData(legacyData: LegacyNotesData): NotesData {
    const now = new Date().toISOString();
    return {
      version: 2, lastModified: now, deviceId: this.deviceId,
      state: legacyData.state, currentPage: legacyData.currentPage, pages: legacyData.pages,
      bookmarks: new Array(legacyData.pages.length).fill(false),
      metadata: { totalPages: legacyData.pages.length, createdAt: now, syncStatus: 'pending' }
    };
  }
  \<close>
\<close>

definition convertLegacyData :: "js_lib \<Rightarrow> int \<Rightarrow> string \<Rightarrow> LegacyNotesData \<Rightarrow> NotesData" where
  "convertLegacyData lib now dev legacyData =
     \<lparr> version = 2,
       lastModified = toISOString lib now,
       deviceId = dev,
       state = legacy_state legacyData,
       currentPage = legacy_currentPage legacyData,
       pages = legacy_pages legacyData,
       bookmarks = Some (replicate (length (legacy_pages legacyData)) False),
       metadata = \<lparr> totalPages = int (length (legacy_pages legacyData)),
                    createdAt = toISOString lib now,
                    syncStatus = Some Pending,
                    fileModTime = None \<rparr> \<rparr>"

text \<open>
  \<^verbatim>\<open>loadNotes\<close> hands the parsed object to \<^verbatim>\<open>convertLegacyData\<close> with the cast
  \<^verbatim>\<open>parsed as LegacyNotesData\<close>, which checks nothing.  When \<^verbatim>\<open>pages\<close> is absent or
  \<^verbatim>\<open>null\<close>, reading \<^verbatim>\<open>legacyData.pages.length\<close> throws a \<^verbatim>\<open>TypeError\<close>.  Otherwise
  \<^verbatim>\<open>pages.length\<close> is the length of an array or of a string, the member \<^verbatim>\<open>length\<close> of an
  object (the last one, if the text repeats the key), and \<^verbatim>\<open>undefined\<close> for a number, a
  boolean or an object without that member.  \<^verbatim>\<open>new Array(x)\<close> has \<open>x\<close> empty slots when
  \<open>x\<close> is a number from 0 to \<open>2^32 - 1\<close>, throws a \<^verbatim>\<open>RangeError\<close> for any other number,
  and is the array of the one element \<open>x\<close> when \<open>x\<close> is not a number; \<^verbatim>\<open>fill(false)\<close>
  puts \<^verbatim>\<open>false\<close> in every place.
\<close>

definition js_length :: "other_json \<Rightarrow> json option" where
  "js_length v =
     (case v of
        ONum n \<Rightarrow> None
      | OBool b \<Rightarrow> None
      | OStr s \<Rightarrow> Some (JNum (int (length s)))
      | OObj members \<Rightarrow> map_of (rev members) ''length'')"

definition Array_fill_false :: "json option \<Rightarrow> error + bool list" where
  "Array_fill_false x =
     (case x of
        Some (JNum n) \<Rightarrow>
          if 0 \<le> n \<and> n < 4294967296 then Inr (replicate (nat n) False) else Inl RangeError
      | _ \<Rightarrow> Inr [False])"

definition convertLegacyData_unchecked ::
  "js_lib \<Rightarrow> int \<Rightarrow> string \<Rightarrow> json_doc \<Rightarrow> error + (NotesData + UncheckedNotes)" where
  "convertLegacyData_unchecked lib now dev j =
     (case j_pages j of
        None \<Rightarrow> Inl TypeError
      | Some (PagesArray ps) \<Rightarrow>
          Inr (Inl (convertLegacyData lib now dev
                      \<lparr> legacy_state = j_state j, legacy_currentPage = j_currentPage j,
                        legacy_pages = ps \<rparr>))
      | Some (PagesOther v) \<Rightarrow>
          (case Array_fill_false (js_length v) of
             Inl e \<Rightarrow> Inl e
           | Inr bs \<Rightarrow>
               Inr (Inr \<lparr> u_version = 2,
                          u_lastModified = toISOString lib now,
                          u_deviceId = dev,
                          u_state = j_state j,
                          u_currentPage = j_currentPage j,
                          u_pages = v,
                          u_bookmarks = map Some bs,
                          u_totalPages = js_length v,
                          u_createdAt = toISOString lib now,
                          u_syncStatus = Some Pending,
                          u_fileModTime = None \<rparr>)))"

text \<open>
  \<^verbatim>\<open>parsed && typeof parsed === 'object' && (!parsed.version || parsed.version === 1)\<close>
\<close>

definition looksLegacy :: "parsed \<Rightarrow> bool" where
  "looksLegacy p =
     (case p of
        PObject j \<Rightarrow> j_version j = None \<or> j_version j = Some 0 \<or> j_version j = Some 1
      | _ \<Rightarrow> False)"

text \<open>
  \<^verbatim>\<open>
  private isValidNotesData(data: any): data is NotesData {
    return (
      typeof data === 'object' &&
      typeof data.version === 'number' &&
      typeof data.lastModified === 'string' &&
      typeof data.deviceId === 'string' &&
      (data.state === 'editor' || data.state === 'render') &&
      typeof data.currentPage === 'number' &&
      Array.isArray(data.pages) &&
      typeof data.metadata === 'object' &&
      typeof data.metadata.totalPages === 'number' &&
      typeof data.metadata.createdAt === 'string'
    );
  }
  \<close>
  On \<^verbatim>\<open>null\<close> the first test holds and the second throws a \<^verbatim>\<open>TypeError\<close>.
\<close>

definition isValidNotesData :: "parsed \<Rightarrow> error + bool" where
  "isValidNotesData data =
     (case data of
        PNull \<Rightarrow> Inl TypeError
      | PPrimitive \<Rightarrow> Inr False
      | PObject j \<Rightarrow>
          Inr (j_version j \<noteq> None \<and>
               j_lastModified j \<noteq> None \<and>
               j_deviceId j \<noteq> None \<and>
               (j_state j = Some Editor \<or> j_state j = Some Render) \<and>
               j_currentPage j \<noteq> None \<and>
               (case j_pages j of Some (PagesArray ps) \<Rightarrow> True | _ \<Rightarrow> False) \<and>
               (case j_metadata j of
                  None \<Rightarrow> False
                | Some m \<Rightarrow> j_totalPages m \<noteq> None \<and> j_createdAt m \<noteq> None)))"

text \<open>
  The cast \<^verbatim>\<open>parsed as NotesData\<close> of an object that passed \<^verbatim>\<open>isValidNotesData\<close>; the
  default values below are never read for such an object.
\<close>

definition as_NotesData :: "parsed \<Rightarrow> NotesData" where
  "as_NotesData data =
     (let j = (case data of PObject j \<Rightarrow> j
               | _ \<Rightarrow> \<lparr> j_version = None, j_lastModified = None, j_deviceId = None,
                        j_state = None, j_currentPage = None, j_pages = None,
                        j_bookmarks = None, j_metadata = None \<rparr>);
          m = (case j_metadata j of Some m \<Rightarrow> m
               | None \<Rightarrow> \<lparr> j_totalPages = None, j_createdAt = None, j_syncStatus = None,
                           j_fileModTime = None \<rparr>)
      in \<lparr> version = (case j_version j of Some v \<Rightarrow> v | None \<Rightarrow> 0),
           lastModified = (case j_lastModified j of Some s \<Rightarrow> s | None \<Rightarrow> []),
           deviceId = (case j_deviceId j of Some s \<Rightarrow> s | None \<Rightarrow> []),
           state = j_state j,
           currentPage = j_currentPage j,
           pages = (case j_pages j of Some (PagesArray ps) \<Rightarrow> ps | _ \<Rightarrow> []),
           bookmarks = j_bookmarks j,
           metadata = \<lparr> totalPages = (case j_totalPages m of Some n \<Rightarrow> n | None \<Rightarrow> 0),
                        createdAt = (case j_createdAt m of Some s \<Rightarrow> s | None \<Rightarrow> []),
                        syncStatus = j_syncStatus m,
                        fileModTime = j_fileModTime m \<rparr> \<rparr>)"

text \<open>
  The migration block of \<^verbatim>\<open>loadNotes\<close>, for the notes file \<open>f\<close> and its parsed text:
  \<^verbatim>\<open>
  if (parsed && typeof parsed === 'object' && (!parsed.version || parsed.version === 1)) {
    try {
      await this.ensureBackupDirectory();
      const backupFileName =
        `pre-migration-${new Date().toISOString().replace(/[:.]/g, '-')}.json`;
      const backupPath = path.join(this.getBackupDirectoryPath(), backupFileName);
      await fs.promises.copyFile(notesPath, backupPath);
      const migrated = this.convertLegacyData(parsed as LegacyNotesData);
      const jsonData = JSON.stringify(migrated, null, 2);
      await fs.promises.writeFile(notesPath, jsonData, 'utf8');
      return migrated;
    } catch (migrateError) {
      console.warn('Failed to migrate legacy notes file:', migrateError);
      // Fall through to validation error
    }
  }
  \<close>
  The result is the migrated object when the block returns one (a \<^verbatim>\<open>NotesData\<close> when
  \<^verbatim>\<open>pages\<close> was an array), and \<open>None\<close> when \<^verbatim>\<open>loadNotes\<close> goes on to the validation.
\<close>

definition preMigrationFileName :: "js_lib \<Rightarrow> int \<Rightarrow> string" where
  "preMigrationFileName lib now =
     ''pre-migration-'' @ replace_colons_dots (toISOString lib now) @ ''.json''"

definition migrateLegacy ::
  "js_lib \<Rightarrow> int \<Rightarrow> stored_file \<Rightarrow> parsed \<Rightarrow> world \<Rightarrow> loaded option \<times> world" where
  "migrateLegacy lib now f p w =
     (if looksLegacy p then
        (let w1 = ensureBackupDirectory w;
             w2 = copyFile f (preMigrationFileName lib now) now w1
         in (case p of
               PObject j \<Rightarrow>
                 (case convertLegacyData_unchecked lib now (this_deviceId w2) j of
                    Inl e \<Rightarrow> (None, w2)
                  | Inr (Inl migrated) \<Rightarrow>
                      (Some (Notes migrated), writeFile (JSON_stringify lib migrated) now w2)
                  | Inr (Inr migrated) \<Rightarrow>
                      (Some (Unchecked migrated),
                       writeFile (JSON_stringify_unchecked lib migrated) now w2))
             | _ \<Rightarrow> (None, w2)))
      else (None, w))"

text \<open>
  \<^verbatim>\<open>!notesData.bookmarks || notesData.bookmarks.length !== notesData.pages.length\<close>
\<close>

definition bookmarksMismatch :: "NotesData \<Rightarrow> bool" where
  "bookmarksMismatch notesData =
     (case bookmarks notesData of
        None \<Rightarrow> True
      | Some bs \<Rightarrow> length bs \<noteq> length (pages notesData))"

definition freshBookmarks :: "NotesData \<Rightarrow> NotesData" where
  "freshBookmarks notesData =
     notesData\<lparr>bookmarks := Some (replicate (length (pages notesData)) False)\<rparr>"

text \<open>
  The part of \<^verbatim>\<open>saveNotes\<close> after the conflict check:
  \<^verbatim>\<open>
    await this.createBackup();
    notesData.lastModified = new Date().toISOString();
    notesData.deviceId = this.deviceId;
    notesData.metadata.totalPages = notesData.pages.length;
    const jsonData = JSON.stringify(notesData, null, 2);
    await fs.promises.writeFile(notesPath, jsonData, 'utf8');
    const stat = await fs.promises.stat(notesPath);
    this.lastKnownModTime = stat.mtimeMs;
    notesData.metadata.fileModTime = stat.mtimeMs;
  \<close>
  The method changes the document it was given; the model returns the changed document,
  which is what the callers of \<^verbatim>\<open>saveNotes\<close> go on to use.
\<close>

definition stampNotes :: "js_lib \<Rightarrow> int \<Rightarrow> string \<Rightarrow> NotesData \<Rightarrow> NotesData" where
  "stampNotes lib now dev notesData =
     notesData\<lparr> lastModified := toISOString lib now,
                 deviceId := dev,
                 metadata := (metadata notesData)\<lparr>totalPages := int (length (pages notesData))\<rparr> \<rparr>"

definition writeNotes ::
  "js_lib \<Rightarrow> Config \<Rightarrow> int \<Rightarrow> NotesData \<Rightarrow> world \<Rightarrow> (error + NotesData) \<times> world" where
  "writeNotes lib cfg now notesData w =
     (let w1 = snd (createBackup lib cfg now w);
          stamped = stampNotes lib now (this_deviceId w1) notesData;
          w2 = writeFile (JSON_stringify lib stamped) now w1
      in (case notesFile w2 of
            None \<Rightarrow> (Inl ENOENT, w2)
          | Some stat \<Rightarrow>
              (Inr (stamped\<lparr>metadata := (metadata stamped)\<lparr>fileModTime := Some (mtime stat)\<rparr>\<rparr>),
               w2\<lparr>lastKnownModTime := mtime stat\<rparr>)))"

text \<open>
  \<^verbatim>\<open>loadNotes\<close> after the migration block, and \<^verbatim>\<open>saveNotes\<close> with its conflict check:
  \<^verbatim>\<open>
      const notesData = parsed as NotesData;
      if (!this.isValidNotesData(notesData)) { throw new Error('Invalid notes data format'); }
      this.lastKnownModTime = stat.mtimeMs;
      if (!notesData.metadata.fileModTime) { notesData.metadata.fileModTime = stat.mtimeMs; }
      if (!notesData.bookmarks || notesData.bookmarks.length !== notesData.pages.length) {
        notesData.bookmarks = new Array(notesData.pages.length).fill(false);
        await this.saveNotes(notesData);
      }
      return notesData;
    } catch (error) {
      if ((error as NodeJS.ErrnoException).code === 'ENOENT') { return null; }
      throw error;
    }

  async saveNotes(notesData: NotesData, skipConflictCheck: boolean = false): Promise<void> {
    await this.ensureStorageDirectory();
    const notesPath = this.getNotesFilePath();
    if (!skipConflictCheck && this.lastKnownModTime > 0) {
      try {
        const stat = await fs.promises.stat(notesPath);
        if (stat.mtimeMs > this.lastKnownModTime) {
          const config = getConfig();
          if (config.sync.conflictResolution === 'timestamp') {
            const externalData = await this.loadNotes();
            if (externalData) {
              const externalTime = new Date(externalData.lastModified).getTime();
              const localTime = new Date(notesData.lastModified).getTime();
              if (externalTime > localTime) { throw new Error('CONFLICT_EXTERNAL_NEWER'); }
            }
          } else {
            throw new Error('CONFLICT_DETECTED');
          }
        }
      } catch (error) {
        if ((error as NodeJS.ErrnoException).code !== 'ENOENT') { throw error; }
      }
    }
    ... the part modelled by writeNotes ...
  }
  \<close>
  The file read and its \<^verbatim>\<open>stat\<close> at the head of \<^verbatim>\<open>loadNotes\<close> fail with \<^verbatim>\<open>ENOENT\<close>
  when there is no notes file, and \<^verbatim>\<open>loadNotes\<close> returns \<^verbatim>\<open>null\<close> then; a text that is
  not JSON makes \<^verbatim>\<open>JSON.parse\<close> throw a \<^verbatim>\<open>SyntaxError\<close>.  Both methods catch an error with the
  code \<^verbatim>\<open>ENOENT\<close>: \<^verbatim>\<open>loadNotes\<close> returns \<^verbatim>\<open>null\<close> then, and \<^verbatim>\<open>saveNotes\<close> goes on to write.  The two methods call each
  other: \<^verbatim>\<open>loadNotes\<close> saves a document whose bookmarks it rebuilt, and \<^verbatim>\<open>saveNotes\<close>
  loads the file that changed on disk under the policy \<^verbatim>\<open>timestamp\<close>.
\<close>

text \<open>\<^verbatim>\<open>externalData.lastModified\<close>, when \<^verbatim>\<open>externalData\<close> is not \<^verbatim>\<open>null\<close>.\<close>

definition loaded_lastModified :: "loaded \<Rightarrow> string option" where
  "loaded_lastModified l =
     (case l of
        Null \<Rightarrow> None
      | Notes d \<Rightarrow> Some (lastModified d)
      | Unchecked u \<Rightarrow> Some (u_lastModified u))"

definition withFileModTime :: "int \<Rightarrow> NotesData \<Rightarrow> NotesData" where
  "withFileModTime t notesData =
     (if fileModTime (metadata notesData) = None \<or> fileModTime (metadata notesData) = Some 0
      then notesData\<lparr>metadata := (metadata notesData)\<lparr>fileModTime := Some t\<rparr>\<rparr>
      else notesData)"

function loadNotes ::
    "js_lib \<Rightarrow> Config \<Rightarrow> int \<Rightarrow> world \<Rightarrow> (error + loaded) \<times> world"
  and saveNotes ::
    "js_lib \<Rightarrow> Config \<Rightarrow> int \<Rightarrow> NotesData \<Rightarrow> bool \<Rightarrow> world \<Rightarrow> (error + NotesData) \<times> world"
where
  "loadNotes lib cfg now w =
     (case notesFile w of
        None \<Rightarrow> (Inr Null, w)
      | Some f \<Rightarrow>
          (case JSON_parse lib (content f) of
             None \<Rightarrow> (Inl SyntaxError, w)
           | Some p \<Rightarrow>
               (case migrateLegacy lib now f p w of
                  (Some migrated, w1) \<Rightarrow> (Inr migrated, w1)
                | (None, w1) \<Rightarrow>
                    (case isValidNotesData p of
                       Inl e \<Rightarrow> (Inl e, w1)
                     | Inr valid \<Rightarrow>
                         if \<not> valid then (Inl Invalid_notes_data_format, w1)
                         else
                           (let w2 = w1\<lparr>lastKnownModTime := mtime f\<rparr>;
                                notesData = withFileModTime (mtime f) (as_NotesData p)
                            in if bookmarksMismatch notesData then
                                 (case saveNotes lib cfg now (freshBookmarks notesData) False w2 of
                                    (Inl e, w3) \<Rightarrow>
                                      if e = ENOENT then (Inr Null, w3) else (Inl e, w3)
                                  | (Inr saved, w3) \<Rightarrow> (Inr (Notes saved), w3))
                               else (Inr (Notes notesData), w2))))))"
| "saveNotes lib cfg now notesData skipConflictCheck w =
     (if \<not> skipConflictCheck \<and> lastKnownModTime w > 0 then
        (case notesFile w of
           None \<Rightarrow> writeNotes lib cfg now notesData w
         | Some stat \<Rightarrow>
             if mtime stat > lastKnownModTime w then
               (if sync_conflictResolution cfg = Timestamp then
                  (case loadNotes lib cfg now w of
                     (Inl e, w1) \<Rightarrow>
                       if e = ENOENT then writeNotes lib cfg now notesData w1 else (Inl e, w1)
                   | (Inr externalData, w1) \<Rightarrow>
                       (case loaded_lastModified externalData of
                          None \<Rightarrow> writeNotes lib cfg now notesData w1
                        | Some externalModified \<Rightarrow>
                            if js_gt (Date_getTime lib externalModified)
                                     (Date_getTime lib (lastModified notesData))
                            then (Inl CONFLICT_EXTERNAL_NEWER, w1)
                            else writeNotes lib cfg now notesData w1))
                else (Inl CONFLICT_DETECTED, w))
             else writeNotes lib cfg now notesData w)
      else writeNotes lib cfg now notesData w)"
  by pat_completeness auto
termination
proof (relation "measure (\<lambda>x. case x of
          Inl (lib, cfg, now, w) \<Rightarrow> 1
        | Inr (lib, cfg, now, notesData, skipConflictCheck, w) \<Rightarrow>
            (if \<not> skipConflictCheck \<and> lastKnownModTime w > 0 \<and>
                (case notesFile w of None \<Rightarrow> False
                 | Some stat \<Rightarrow> mtime stat > lastKnownModTime w)
             then 2 else 0))", goal_cases)
  case 1
  show ?case by simp
next
  case (2 lib cfg now w f p x w1 valid)
  then have "notesFile w1 = notesFile w"
    by (auto simp: migrateLegacy_def Let_def copyFile_def ensureBackupDirectory_def
             split: if_splits parsed.splits sum.splits option.splits)
  with 2 show ?case by simp
next
  case 3
  then show ?case by simp
qed

declare loadNotes.simps [simp del] saveNotes.simps [simp del]

text \<open>
  The older variant of the service has no watermark and no conflict check:
  \<^verbatim>\<open>
  async saveNotes(notesData: NotesData): Promise<void> {
    await this.ensureStorageDirectory();
    await this.createBackup();
    const notesPath = this.getNotesFilePath();
    notesData.lastModified = new Date().toISOString();
    notesData.deviceId = this.deviceId;
    notesData.metadata.totalPages = notesData.pages.length;
    const jsonData = JSON.stringify(notesData, null, 2);
    await fs.promises.writeFile(notesPath, jsonData, 'utf8');
  }
  \<close>
\<close>

definition saveNotes_older ::
  "js_lib \<Rightarrow> Config \<Rightarrow> int \<Rightarrow> NotesData \<Rightarrow> world \<Rightarrow> NotesData \<times> world" where
  "saveNotes_older lib cfg now notesData w =
     (let w1 = snd (createBackup lib cfg now w);
          stamped = stampNotes lib now (this_deviceId w1) notesData;
          w2 = writeFile (JSON_stringify lib stamped) now w1
      in (stamped, w2))"

text \<open>
  \<^verbatim>\<open>
  async restoreFromBackup(backupPath: string): Promise<NotesData> {
    const data = await fs.promises.readFile(backupPath, 'utf8');
    const notesData = JSON.parse(data) as NotesData;
    if (!this.isValidNotesData(notesData)) { throw new Error('Invalid backup data format'); }
    await this.saveNotes(notesData);
    return notesData;
  }
  \<close>
  The path is the name of an entry of the backup folder.
\<close>

definition restoreFromBackup ::
  "js_lib \<Rightarrow> Config \<Rightarrow> int \<Rightarrow> string \<Rightarrow> world \<Rightarrow> (error + NotesData) \<times> world" where
  "restoreFromBackup lib cfg now backupPath w =
     (case (case backupDir w of None \<Rightarrow> None | Some d \<Rightarrow> map_of d backupPath) of
        None \<Rightarrow> (Inl ENOENT, w)
      | Some b \<Rightarrow>
          (case JSON_parse lib (content b) of
             None \<Rightarrow> (Inl SyntaxError, w)
           | Some p \<Rightarrow>
               (case isValidNotesData p of
                  Inl e \<Rightarrow> (Inl e, w)
                | Inr valid \<Rightarrow>
                    if \<not> valid then (Inl Invalid_backup_data_format, w)
                    else saveNotes lib cfg now (as_NotesData p) False w)))"

section \<open>Saving an object that is not a document\<close>

text \<open>
  \<^verbatim>\<open>toggleBookmark\<close> and \<^verbatim>\<open>setBookmarks\<close> pass what \<^verbatim>\<open>loadNotes\<close> returned on to
  \<^verbatim>\<open>saveNotes\<close>, also when it is the conversion of a legacy object whose \<^verbatim>\<open>pages\<close> is not
  an array.  The same statements of \<^verbatim>\<open>saveNotes\<close> then run on that object:
  \<^verbatim>\<open>notesData.pages.length\<close> is the \<^verbatim>\<open>length\<close> property of the value and
  \<^verbatim>\<open>JSON.stringify\<close> prints the object as it is.
\<close>

definition stampUnchecked :: "js_lib \<Rightarrow> int \<Rightarrow> string \<Rightarrow> UncheckedNotes \<Rightarrow> UncheckedNotes" where
  "stampUnchecked lib now dev u =
     u\<lparr> u_lastModified := toISOString lib now,
        u_deviceId := dev,
        u_totalPages := js_length (u_pages u) \<rparr>"

definition writeUnchecked ::
  "js_lib \<Rightarrow> Config \<Rightarrow> int \<Rightarrow> UncheckedNotes \<Rightarrow> world \<Rightarrow> (error + UncheckedNotes) \<times> world" where
  "writeUnchecked lib cfg now u w =
     (let w1 = snd (createBackup lib cfg now w);
          stamped = stampUnchecked lib now (this_deviceId w1) u;
          w2 = writeFile (JSON_stringify_unchecked lib stamped) now w1
      in (case notesFile w2 of
            None \<Rightarrow> (Inl ENOENT, w2)
          | Some stat \<Rightarrow>
              (Inr (stamped\<lparr>u_fileModTime := Some (mtime stat)\<rparr>),
               w2\<lparr>lastKnownModTime := mtime stat\<rparr>)))"

definition saveNotes_unchecked ::
  "js_lib \<Rightarrow> Config \<Rightarrow> int \<Rightarrow> UncheckedNotes \<Rightarrow> bool \<Rightarrow> world
     \<Rightarrow> (error + UncheckedNotes) \<times> world" where
  "saveNotes_unchecked lib cfg now u skipConflictCheck w =
     (if \<not> skipConflictCheck \<and> lastKnownModTime w > 0 then
        (case notesFile w of
           None \<Rightarrow> writeUnchecked lib cfg now u w
         | Some stat \<Rightarrow>
             if mtime stat > lastKnownModTime w then
               (if sync_conflictResolution cfg = Timestamp then
                  (case loadNotes lib cfg now w of
                     (Inl e, w1) \<Rightarrow>
                       if e = ENOENT then writeUnchecked lib cfg now u w1 else (Inl e, w1)
                   | (Inr externalData, w1) \<Rightarrow>
                       (case loaded_lastModified externalData of
                          None \<Rightarrow> writeUnchecked lib cfg now u w1
                        | Some externalModified \<Rightarrow>
                            if js_gt (Date_getTime lib externalModified)
                                     (Date_getTime lib (u_lastModified u))
                            then (Inl CONFLICT_EXTERNAL_NEWER, w1)
                            else writeUnchecked lib cfg now u w1))
                else (Inl CONFLICT_DETECTED, w))
             else writeUnchecked lib cfg now u w)
      else writeUnchecked lib cfg now u w)"

section \<open>Bookmarks\<close>

text \<open>
  \<^verbatim>\<open>
  async toggleBookmark(pageIndex: number, value?: boolean): Promise<NotesData | null> {
    const notesData = await this.loadNotes();
    if (!notesData) { return null; }
    if (!notesData.bookmarks || notesData.bookmarks.length !== notesData.pages.length) {
      notesData.bookmarks = new Array(notesData.pages.length).fill(false);
    }
    if (pageIndex < 0 || pageIndex >= notesData.pages.length) {
      console.warn(`[StorageService] Invalid page index: ${pageIndex}`);
      return null;
    }
    notesData.bookmarks[pageIndex] = value !== undefined ? value : !notesData.bookmarks[pageIndex];
    await this.saveNotes(notesData);
    return notesData;
  }
  \<close>
  The index is an integer.
\<close>

definition ensuredBookmarks :: "NotesData \<Rightarrow> bool list" where
  "ensuredBookmarks notesData =
     (case bookmarks notesData of
        None \<Rightarrow> replicate (length (pages notesData)) False
      | Some bs \<Rightarrow>
          if length bs \<noteq> length (pages notesData)
          then replicate (length (pages notesData)) False else bs)"

text \<open>
  The same statements on an object whose \<^verbatim>\<open>pages\<close> is not an array.  A comparison of a
  number with \<^verbatim>\<open>undefined\<close> is false.  Reading an array at an empty slot or past its end
  gives \<^verbatim>\<open>undefined\<close>, and \<^verbatim>\<open>!undefined\<close> is \<^verbatim>\<open>true\<close>.  An assignment past the end of an
  array extends it with empty slots; from the index \<open>2^32 - 1\<close> on, the assignment adds a
  property that is not an element, which neither the length nor \<^verbatim>\<open>JSON.stringify\<close> sees.
  \<open>array_set\<close> is used at indices that are not negative.
\<close>

definition js_ge :: "js_lib \<Rightarrow> int \<Rightarrow> json option \<Rightarrow> bool" where
  "js_ge lib i x =
     (case x of None \<Rightarrow> False | Some (JNum n) \<Rightarrow> i \<ge> n | Some v \<Rightarrow> number_ge lib i v)"

definition js_lt :: "js_lib \<Rightarrow> int \<Rightarrow> json option \<Rightarrow> bool" where
  "js_lt lib i x =
     (case x of None \<Rightarrow> False | Some (JNum n) \<Rightarrow> i < n | Some v \<Rightarrow> number_lt lib i v)"

definition array_set :: "'a option list \<Rightarrow> int \<Rightarrow> 'a \<Rightarrow> 'a option list" where
  "array_set xs i v =
     (if i < int (length xs) then xs[nat i := Some v]
      else if i < 4294967295 then xs @ replicate (nat i - length xs) None @ [Some v]
      else xs)"

definition truthy_at :: "bool option list \<Rightarrow> nat \<Rightarrow> bool" where
  "truthy_at xs i = (i < length xs \<and> xs ! i = Some True)"

definition ensuredBookmarks_unchecked :: "UncheckedNotes \<Rightarrow> error + bool option list" where
  "ensuredBookmarks_unchecked u =
     (if Some (JNum (int (length (u_bookmarks u)))) \<noteq> js_length (u_pages u) then
        (case Array_fill_false (js_length (u_pages u)) of
           Inl e \<Rightarrow> Inl e
         | Inr bs \<Rightarrow> Inr (map Some bs))
      else Inr (u_bookmarks u))"

definition toggleBookmark ::
  "js_lib \<Rightarrow> Config \<Rightarrow> int \<Rightarrow> int \<Rightarrow> bool option \<Rightarrow> world \<Rightarrow> (error + loaded) \<times> world" where
  "toggleBookmark lib cfg now pageIndex val w =
     (case loadNotes lib cfg now w of
        (Inl e, w1) \<Rightarrow> (Inl e, w1)
      | (Inr Null, w1) \<Rightarrow> (Inr Null, w1)
      | (Inr (Notes notesData), w1) \<Rightarrow>
          (let bs = ensuredBookmarks notesData
           in if pageIndex < 0 \<or> pageIndex \<ge> int (length (pages notesData)) then (Inr Null, w1)
              else
                (let toggled = bs[nat pageIndex :=
                                    (case val of Some v \<Rightarrow> v | None \<Rightarrow> \<not> bs ! nat pageIndex)]
                 in (case saveNotes lib cfg now (notesData\<lparr>bookmarks := Some toggled\<rparr>) False w1 of
                       (Inl e, w2) \<Rightarrow> (Inl e, w2)
                     | (Inr saved, w2) \<Rightarrow> (Inr (Notes saved), w2))))
      | (Inr (Unchecked u), w1) \<Rightarrow>
          (case ensuredBookmarks_unchecked u of
             Inl e \<Rightarrow> (Inl e, w1)
           | Inr bs \<Rightarrow>
               if pageIndex < 0 \<or> js_ge lib pageIndex (js_length (u_pages u)) then (Inr Null, w1)
               else
                 (let toggled = array_set bs pageIndex
                                  (case val of Some v \<Rightarrow> v
                                   | None \<Rightarrow> \<not> truthy_at bs (nat pageIndex))
                  in (case saveNotes_unchecked lib cfg now (u\<lparr>u_bookmarks := toggled\<rparr>) False w1 of
                        (Inl e, w2) \<Rightarrow> (Inl e, w2)
                      | (Inr saved, w2) \<Rightarrow> (Inr (Unchecked saved), w2)))))"

text \<open>
  \<^verbatim>\<open>
  async setBookmarks(indices: number[], value: boolean): Promise<NotesData | null> {
    const notesData = await this.loadNotes();
    if (!notesData) { return null; }
    if (!notesData.bookmarks || notesData.bookmarks.length !== notesData.pages.length) {
      notesData.bookmarks = new Array(notesData.pages.length).fill(false);
    }
    indices.forEach((idx) => {
      if (idx >= 0 && idx < notesData.pages.length) { notesData.bookmarks![idx] = value; }
    });
    await this.saveNotes(notesData);
    return notesData;
  }
  \<close>
\<close>

definition setBookmarks ::
  "js_lib \<Rightarrow> Config \<Rightarrow> int \<Rightarrow> int list \<Rightarrow> bool \<Rightarrow> world \<Rightarrow> (error + loaded) \<times> world" where
  "setBookmarks lib cfg now indices val w =
     (case loadNotes lib cfg now w of
        (Inl e, w1) \<Rightarrow> (Inl e, w1)
      | (Inr Null, w1) \<Rightarrow> (Inr Null, w1)
      | (Inr (Notes notesData), w1) \<Rightarrow>
          (let bs = foldl (\<lambda>acc idx.
                             if idx \<ge> 0 \<and> idx < int (length (pages notesData))
                             then acc[nat idx := val] else acc)
                          (ensuredBookmarks notesData) indices
           in (case saveNotes lib cfg now (notesData\<lparr>bookmarks := Some bs\<rparr>) False w1 of
                 (Inl e, w2) \<Rightarrow> (Inl e, w2)
               | (Inr saved, w2) \<Rightarrow> (Inr (Notes saved), w2)))
      | (Inr (Unchecked u), w1) \<Rightarrow>
          (case ensuredBookmarks_unchecked u of
             Inl e \<Rightarrow> (Inl e, w1)
           | Inr ensured \<Rightarrow>
               (let bs = foldl (\<lambda>acc idx.
                                  if idx \<ge> 0 \<and> js_lt lib idx (js_length (u_pages u))
                                  then array_set acc idx val else acc)
                               ensured indices
                in (case saveNotes_unchecked lib cfg now (u\<lparr>u_bookmarks := bs\<rparr>) False w1 of
                      (Inl e, w2) \<Rightarrow> (Inl e, w2)
                    | (Inr saved, w2) \<Rightarrow> (Inr (Unchecked saved), w2)))))"

section \<open>The default document of the migration service\<close>

text \<open>
  \<^verbatim>\<open>
  private createDefaultNotes(): NotesData {
    const now = new Date().toISOString();
    return {
      version: 2, lastModified: now,
      deviceId: '', // Will be set by storage service
      state: 'editor', currentPage: 0,
      pages: [''], // Start with one empty page instead of welcome message
      metadata: { totalPages: 1, createdAt: now, syncStatus: 'synced' }
    };
  }
  \<close>
  \<^verbatim>\<open>MigrationService.migrateLegacyData\<close> returns this document when the migration failed.
\<close>

definition createDefaultNotes :: "js_lib \<Rightarrow> int \<Rightarrow> NotesData" where
  "createDefaultNotes lib now =
     \<lparr> version = 2,
       lastModified = toISOString lib now,
       deviceId = [],
       state = Some Editor,
       currentPage = Some 0,
       pages = [[]],
       bookmarks = None,
       metadata = \<lparr> totalPages = 1, createdAt = toISOString lib now,
                    syncStatus = Some Synced, fileModTime = None \<rparr> \<rparr>"


section \<open>The clock as text\<close>

text \<open>
  \<^verbatim>\<open>Date.prototype.toISOString\<close> for an instant given in milliseconds since the epoch, for
  the years 0 to 9999: \<^verbatim>\<open>YYYY-MM-DDTHH:mm:ss.sssZ\<close> in UTC.  The date is computed from
  the day number in the proleptic Gregorian calendar (years counted from March, in eras
  of 400 years).
\<close>

definition digit :: "int \<Rightarrow> char" where
  "digit n = ''0123456789'' ! nat (n mod 10)"

definition digits2 :: "int \<Rightarrow> string" where
  "digits2 n = [digit (n div 10), digit n]"

definition digits3 :: "int \<Rightarrow> string" where
  "digits3 n = [digit (n div 100), digit (n div 10), digit n]"

definition digits4 :: "int \<Rightarrow> string" where
  "digits4 n = [digit (n div 1000), digit (n div 100), digit (n div 10), digit n]"

definition civil_from_days :: "int \<Rightarrow> int \<times> int \<times> int" where
  "civil_from_days days =
     (let z = days + 719468;
          era = z div 146097;
          doe = z mod 146097;
          yoe = (doe - doe div 1460 + doe div 36524 - doe div 146096) div 365;
          doy = doe - (365 * yoe + yoe div 4 - yoe div 100);
          mp = (5 * doy + 2) div 153;
          d = doy - (153 * mp + 2) div 5 + 1;
          m = (if mp < 10 then mp + 3 else mp - 9);
          y = yoe + era * 400 + (if m \<le> 2 then 1 else 0)
      in (y, m, d))"

definition toISOString_utc :: "int \<Rightarrow> string" where
  "toISOString_utc ms =
     (let (y, m, d) = civil_from_days (ms div 86400000);
          r = ms mod 86400000
      in digits4 y @ ''-'' @ digits2 m @ ''-'' @ digits2 d @ ''T'' @
         digits2 (r div 3600000) @ '':'' @ digits2 ((r div 60000) mod 60) @ '':'' @
         digits2 ((r div 1000) mod 60) @ ''.'' @ digits3 (r mod 1000) @ ''Z'')"

section \<open>Notions used in the statements\<close>

text \<open>The entry of the backup folder with a given name, if there is one.\<close>

definition backupEntry :: "world \<Rightarrow> string \<Rightarrow> stored_file option" where
  "backupEntry w name = (case backupDir w of None \<Rightarrow> None | Some d \<Rightarrow> map_of d name)"

text \<open>The invariant of the specification: there are bookmarks, one for each page.\<close>

definition bookmarksAligned :: "NotesData \<Rightarrow> bool" where
  "bookmarksAligned d =
     (case bookmarks d of None \<Rightarrow> False | Some bs \<Rightarrow> length bs = length (pages d))"

text \<open>The entries of the backup folder; none when the folder does not exist.\<close>

definition folderOf :: "world \<Rightarrow> dir" where
  "folderOf w = (case backupDir w of None \<Rightarrow> [] | Some d \<Rightarrow> d)"

text \<open>
  The backup files in the backup folder: the entries named \<^verbatim>\<open>backup-*.json\<close>.  The
  statements below use them as a set, and their number.
\<close>

definition storedBackups :: "world \<Rightarrow> dir" where
  "storedBackups w =
     filter (\<lambda>(n, g). prefix ''backup-'' n \<and> suffix ''.json'' n) (folderOf w)"

section \<open>Example values\<close>

text \<open>
  The examples below run the operations on concrete documents and files.
  \<open>demo_getTime\<close> is the table of \<^verbatim>\<open>new Date(s).getTime()\<close> for the three timestamps the
  examples use, and \<open>demo_parse\<close> the table of \<^verbatim>\<open>JSON.parse\<close> for the four file texts;
  any other text counts as malformed.  \<open>demo_stringify\<close> prints a document as JSON on one
  line (the indentation of \<^verbatim>\<open>JSON.stringify(d, null, 2)\<close> is left out, and only the
  quote and the backslash are escaped), and \<open>demo_stringify_unchecked\<close> does the same
  for an object whose \<^verbatim>\<open>pages\<close> is not an array.  \<open>demo_number\<close> is the number a JSON value
  converts to in a comparison, for \<^verbatim>\<open>null\<close> and the booleans; the other values count as
  \<^verbatim>\<open>NaN\<close>, with which every comparison is false.  \<open>demo_readdir\<close> lists the names of a
  folder in the order of its entries.
\<close>

definition demo_getTime :: "string \<Rightarrow> int option" where
  "demo_getTime s =
     map_of [(''1970-01-01T00:00:01.000Z'', 1000),
             (''1970-01-01T00:00:02.000Z'', 2000),
             (''1970-01-01T00:00:03.000Z'', 3000)] s"

definition demo_doc :: "string \<Rightarrow> int \<Rightarrow> string list \<Rightarrow> bool list option \<Rightarrow> NotesData" where
  "demo_doc modified cur ps bs =
     \<lparr> version = 2, lastModified = modified, deviceId = ''device-1'',
       state = Some Editor, currentPage = Some cur, pages = ps, bookmarks = bs,
       metadata = \<lparr> totalPages = int (length ps), createdAt = ''1970-01-01T00:00:01.000Z'',
                    syncStatus = Some Synced, fileModTime = None \<rparr> \<rparr>"

fun show_nat :: "nat \<Rightarrow> string" where
  "show_nat n = (if n < 10 then [digit (int n)] else show_nat (n div 10) @ [digit (int n)])"

definition show_int :: "int \<Rightarrow> string" where
  "show_int i = (if i < 0 then ''-'' @ show_nat (nat (- i)) else show_nat (nat i))"

definition show_string :: "string \<Rightarrow> string" where
  "show_string s =
     [CHR 0x22] @
     concat (map (\<lambda>c. if c = CHR 0x22 \<or> c = CHR 0x5C then [CHR 0x5C, c] else [c]) s) @
     [CHR 0x22]"

fun commas :: "string list \<Rightarrow> string" where
  "commas [] = []"
| "commas [x] = x"
| "commas (x # y # ys) = x @ '','' @ commas (y # ys)"

definition show_field :: "string \<Rightarrow> string \<Rightarrow> string" where
  "show_field name v = show_string name @ '':'' @ v"

definition show_optional :: "string \<Rightarrow> ('a \<Rightarrow> string) \<Rightarrow> 'a option \<Rightarrow> string list" where
  "show_optional name f v = (case v of None \<Rightarrow> [] | Some x \<Rightarrow> [show_field name (f x)])"

definition show_state :: "ui_state \<Rightarrow> string" where
  "show_state s = show_string (case s of Editor \<Rightarrow> ''editor'' | Render \<Rightarrow> ''render'')"

definition show_syncStatus :: "sync_status \<Rightarrow> string" where
  "show_syncStatus s =
     show_string (case s of Synced \<Rightarrow> ''synced'' | Pending \<Rightarrow> ''pending''
                  | Conflict \<Rightarrow> ''conflict'')"

definition show_array :: "('a \<Rightarrow> string) \<Rightarrow> 'a list \<Rightarrow> string" where
  "show_array f xs = ''['' @ commas (map f xs) @ '']''"

definition show_bool :: "bool \<Rightarrow> string" where
  "show_bool b = (if b then ''true'' else ''false'')"

definition demo_stringify :: "NotesData \<Rightarrow> string" where
  "demo_stringify d =
     ''{'' @
     commas ([show_field ''version'' (show_int (version d)),
              show_field ''lastModified'' (show_string (lastModified d)),
              show_field ''deviceId'' (show_string (deviceId d))] @
             show_optional ''state'' show_state (state d) @
             show_optional ''currentPage'' show_int (currentPage d) @
             [show_field ''pages'' (show_array show_string (pages d))] @
             show_optional ''bookmarks'' (show_array show_bool) (bookmarks d) @
             [show_field ''metadata''
                (''{'' @
                 commas ([show_field ''totalPages'' (show_int (totalPages (metadata d))),
                          show_field ''createdAt'' (show_string (createdAt (metadata d)))] @
                         show_optional ''syncStatus'' show_syncStatus (syncStatus (metadata d)) @
                         show_optional ''fileModTime'' show_int (fileModTime (metadata d))) @
                 ''}'')]) @
     ''}''"

primrec show_json :: "json \<Rightarrow> string" where
  "show_json JNull = ''null''"
| "show_json (JBool b) = show_bool b"
| "show_json (JNum n) = show_int n"
| "show_json (JStr s) = show_string s"
| "show_json (JArr xs) = ''['' @ commas (map show_json xs) @ '']''"
| "show_json (JObj members) =
     ''{'' @ commas (map (\<lambda>(k, v). show_field k v) (map (map_prod id show_json) members)) @ ''}''"

definition show_other :: "other_json \<Rightarrow> string" where
  "show_other v =
     (case v of
        ONum n \<Rightarrow> show_int n
      | OBool b \<Rightarrow> show_bool b
      | OStr s \<Rightarrow> show_string s
      | OObj members \<Rightarrow> show_json (JObj members))"

definition demo_stringify_unchecked :: "UncheckedNotes \<Rightarrow> string" where
  "demo_stringify_unchecked u =
     ''{'' @
     commas ([show_field ''version'' (show_int (u_version u)),
              show_field ''lastModified'' (show_string (u_lastModified u)),
              show_field ''deviceId'' (show_string (u_deviceId u))] @
             show_optional ''state'' show_state (u_state u) @
             show_optional ''currentPage'' show_int (u_currentPage u) @
             [show_field ''pages'' (show_other (u_pages u)),
              show_field ''bookmarks''
                (show_array (\<lambda>b. case b of None \<Rightarrow> ''null'' | Some x \<Rightarrow> show_bool x)
                   (u_bookmarks u)),
              show_field ''metadata''
                (''{'' @
                 commas (show_optional ''totalPages'' show_json (u_totalPages u) @
                         [show_field ''createdAt'' (show_string (u_createdAt u))] @
                         show_optional ''syncStatus'' show_syncStatus (u_syncStatus u) @
                         show_optional ''fileModTime'' show_int (u_fileModTime u)) @
                 ''}'')]) @
     ''}''"

definition demo_number :: "json \<Rightarrow> int option" where
  "demo_number v =
     (case v of
        JNull \<Rightarrow> Some 0
      | JBool b \<Rightarrow> Some (if b then 1 else 0)
      | JNum n \<Rightarrow> Some n
      | _ \<Rightarrow> None)"

definition demo_readdir :: "dir \<Rightarrow> string list" where
  "demo_readdir d = map fst d"

text \<open>
  A file of the predecessor, a file of this service, the same file as it was before
  bookmarks existed, and a file of the predecessor whose \<^verbatim>\<open>pages\<close> is a number.
\<close>

definition legacy_text :: string where
  \<open>legacy_text = ''{"pages":["hello"],"state":"editor","currentPage":0,"version":1}''\<close>

definition legacy_json :: json_doc where
  "legacy_json =
     \<lparr> j_version = Some 1, j_lastModified = None, j_deviceId = None, j_state = Some Editor,
       j_currentPage = Some 0, j_pages = Some (PagesArray [''hello'']), j_bookmarks = None,
       j_metadata = None \<rparr>"

definition notes_text :: string where
  \<open>notes_text = ''{"version":2,"lastModified":"1970-01-01T00:00:01.000Z","deviceId":"device-1","state":"editor","currentPage":0,"pages":["p0","p1"],"bookmarks":[false,false],"metadata":{"totalPages":2,"createdAt":"1970-01-01T00:00:01.000Z","syncStatus":"synced"}}''\<close>

definition notes_json :: json_doc where
  "notes_json =
     \<lparr> j_version = Some 2, j_lastModified = Some ''1970-01-01T00:00:01.000Z'',
       j_deviceId = Some ''device-1'', j_state = Some Editor, j_currentPage = Some 0,
       j_pages = Some (PagesArray [''p0'', ''p1'']), j_bookmarks = Some [False, False],
       j_metadata = Some \<lparr> j_totalPages = Some 2,
                           j_createdAt = Some ''1970-01-01T00:00:01.000Z'',
                           j_syncStatus = Some Synced, j_fileModTime = None \<rparr> \<rparr>"

definition old_notes_text :: string where
  \<open>old_notes_text = ''{"version":2,"lastModified":"1970-01-01T00:00:01.000Z","deviceId":"device-1","state":"editor","currentPage":0,"pages":["p0","p1"],"metadata":{"totalPages":2,"createdAt":"1970-01-01T00:00:01.000Z","syncStatus":"synced"}}''\<close>

definition pages_number_text :: string where
  \<open>pages_number_text = ''{"pages":7}''\<close>

definition pages_number_json :: json_doc where
  "pages_number_json =
     \<lparr> j_version = None, j_lastModified = None, j_deviceId = None, j_state = None,
       j_currentPage = None, j_pages = Some (PagesOther (ONum 7)), j_bookmarks = None,
       j_metadata = None \<rparr>"

definition demo_parse :: "string \<Rightarrow> parsed option" where
  "demo_parse s =
     (if s = legacy_text then Some (PObject legacy_json)
      else if s = notes_text then Some (PObject notes_json)
      else if s = old_notes_text then Some (PObject (notes_json\<lparr>j_bookmarks := None\<rparr>))
      else if s = pages_number_text then Some (PObject pages_number_json)
      else None)"

definition demo_lib :: js_lib where
  "demo_lib =
     \<lparr> JSON_parse = demo_parse, JSON_stringify = demo_stringify,
       Date_getTime = demo_getTime, toISOString = toISOString_utc,
       JSON_stringify_unchecked = demo_stringify_unchecked,
       number_ge = (\<lambda>i v. case demo_number v of None \<Rightarrow> False | Some n \<Rightarrow> i \<ge> n),
       number_lt = (\<lambda>i v. case demo_number v of None \<Rightarrow> False | Some n \<Rightarrow> i < n),
       readdir = demo_readdir \<rparr>"

definition demo_cfg :: Config where
  "demo_cfg = \<lparr> backup_enabled = True, backup_maxBackups = 2,
                 sync_conflictResolution = Manual \<rparr>"

text \<open>
  A service that has not loaded anything yet (watermark 0), beside a notes file with the
  given text, written at the instant 1000, and no backup folder.
\<close>

definition demo_world :: "string \<Rightarrow> world" where
  "demo_world txt =
     \<lparr> this_deviceId = ''device-1'', lastKnownModTime = 0,
       notesFile = Some \<lparr> content = txt, mtime = 1000 \<rparr>, backupDir = None \<rparr>"

text \<open>
  The document \<^verbatim>\<open>loadNotes\<close> returns for \<open>notes_text\<close> (it records the modification time
  of the file), and the document a save at the instant 5000 leaves, with given bookmarks.
\<close>

definition demo_loaded :: NotesData where
  "demo_loaded =
     \<lparr> version = 2, lastModified = ''1970-01-01T00:00:01.000Z'', deviceId = ''device-1'',
       state = Some Editor, currentPage = Some 0, pages = [''p0'', ''p1''],
       bookmarks = Some [False, False],
       metadata = \<lparr> totalPages = 2, createdAt = ''1970-01-01T00:00:01.000Z'',
                    syncStatus = Some Synced, fileModTime = Some 1000 \<rparr> \<rparr>"

definition demo_saved :: "bool list option \<Rightarrow> NotesData" where
  "demo_saved bs =
     \<lparr> version = 2, lastModified = ''1970-01-01T00:00:05.000Z'', deviceId = ''device-1'',
       state = Some Editor, currentPage = Some 0, pages = [''p0'', ''p1''],
       bookmarks = bs,
       metadata = \<lparr> totalPages = 2, createdAt = ''1970-01-01T00:00:01.000Z'',
                    syncStatus = Some Synced, fileModTime = Some 5000 \<rparr> \<rparr>"

text \<open>The same service with one backup file, taken before bookmarks existed.\<close>

definition demo_world_with_backup :: world where
  "demo_world_with_backup =
     (demo_world notes_text)
       \<lparr>backupDir := Some [(''backup-1970-01-01T00-00-00.json'',
                            \<lparr> content = old_notes_text, mtime = 900 \<rparr>)]\<rparr>"

text \<open>
  What \<^verbatim>\<open>loadNotes\<close> returns at the instant 5000 for the file whose \<^verbatim>\<open>pages\<close> is the
  number 7.
\<close>

definition demo_unchecked :: UncheckedNotes where
  "demo_unchecked =
     \<lparr> u_version = 2, u_lastModified = ''1970-01-01T00:00:05.000Z'', u_deviceId = ''device-1'',
       u_state = None, u_currentPage = None, u_pages = ONum 7, u_bookmarks = [Some False],
       u_totalPages = None, u_createdAt = ''1970-01-01T00:00:05.000Z'',
       u_syncStatus = Some Pending, u_fileModTime = None \<rparr>"

text \<open>The document \<^verbatim>\<open>loadNotes\<close> returns at the instant 5000 for \<open>legacy_text\<close>.\<close>

definition demo_migrated :: NotesData where
  "demo_migrated =
     \<lparr> version = 2, lastModified = ''1970-01-01T00:00:05.000Z'', deviceId = ''device-1'',
       state = Some Editor, currentPage = Some 0, pages = [''hello''],
       bookmarks = Some [False],
       metadata = \<lparr> totalPages = 1, createdAt = ''1970-01-01T00:00:05.000Z'',
                    syncStatus = Some Pending, fileModTime = None \<rparr> \<rparr>"

section \<open>Properties of the merge\<close>

text \<open>The page list built through \<^verbatim>\<open>Set\<close> is the list of first occurrences.\<close>

lemma Set_add_fold:
  "foldl Set_add acc xs = acc @ first_occurrences (filter (\<lambda>x. x \<notin> set acc) xs)"
proof (induction xs arbitrary: acc)
  case Nil
  show ?case by simp
next
  case (Cons x xs)
  show ?case
  proof (cases "x \<in> set acc")
    case True
    then show ?thesis using Cons.IH [of acc] by (simp add: Set_add_def)
  next
    case False
    have "removeAll x (filter (\<lambda>y. y \<notin> set acc) xs) = filter (\<lambda>y. y \<notin> set (acc @ [x])) xs"
      by (induction xs) auto
    then show ?thesis using False Cons.IH [of "acc @ [x]"] by (simp add: Set_add_def)
  qed
qed

lemma Array_from_Set_first_occurrences: "Array_from_Set xs = first_occurrences xs"
  by (simp add: Array_from_Set_def Set_add_fold)

lemma set_first_occurrences: "set (first_occurrences xs) = set xs"
  by (induction xs rule: first_occurrences.induct) auto

lemma distinct_first_occurrences: "distinct (first_occurrences xs)"
  by (induction xs rule: first_occurrences.induct) (auto simp: set_first_occurrences)

lemma length_first_occurrences: "length (first_occurrences xs) = card (set xs)"
  using distinct_card [OF distinct_first_occurrences, of xs] by (simp add: set_first_occurrences)

lemma pages_mergeNotes:
  "pages (mergeNotes lib now dev l r) = Array_from_Set (pages l @ pages r)"
  by (simp add: mergeNotes_def Let_def)

lemma state_mergeNotes:
  "state (mergeNotes lib now dev l r) =
     state (if js_gt (Date_getTime lib (lastModified l)) (Date_getTime lib (lastModified r))
            then l else r)"
  by (simp add: mergeNotes_def Let_def)

lemma currentPage_mergeNotes:
  "currentPage (mergeNotes lib now dev l r) =
     Math_min (currentPage (if js_gt (Date_getTime lib (lastModified l))
                                     (Date_getTime lib (lastModified r)) then l else r))
              (int (length (pages (mergeNotes lib now dev l r))) - 1)"
  by (simp add: mergeNotes_def Let_def)

text \<open>
  Claim C8.  For every pair of documents, the pages of \<open>mergeNotes local remote\<close> are the
  pages of \<open>local\<close> followed by those of \<open>remote\<close> with only the first occurrence of each
  page text kept, in the order met; merging the pages A, B with the pages B, C gives
  A, B, C.
\<close>

theorem merge_pages_first_occurrences:
  "pages (mergeNotes lib now dev l r) = first_occurrences (pages l @ pages r) \<and>
   (pages l = [''A'', ''B''] \<longrightarrow> pages r = [''B'', ''C''] \<longrightarrow>
      pages (mergeNotes lib now dev l r) = [''A'', ''B'', ''C''])"
  by (auto simp: pages_mergeNotes Array_from_Set_first_occurrences)

theorem merge_pages_first_occurrences_witness:
  "pages (demo_doc ''1970-01-01T00:00:01.000Z'' 0 [''A'', ''B''] None) = [''A'', ''B''] \<and>
   pages (demo_doc ''1970-01-01T00:00:02.000Z'' 1 [''B'', ''C''] None) = [''B'', ''C''] \<and>
   pages (mergeNotes demo_lib 5000 ''device-1''
            (demo_doc ''1970-01-01T00:00:01.000Z'' 0 [''A'', ''B''] None)
            (demo_doc ''1970-01-01T00:00:02.000Z'' 1 [''B'', ''C''] None)) = [''A'', ''B'', ''C'']"
  using merge_pages_first_occurrences [of demo_lib 5000 "''device-1''"
          "demo_doc ''1970-01-01T00:00:01.000Z'' 0 [''A'', ''B''] None"
          "demo_doc ''1970-01-01T00:00:02.000Z'' 1 [''B'', ''C''] None"]
  by (simp add: demo_doc_def)

text \<open>
  Claim C3, amended.  The merged page list is never longer than the two page lists
  together, and it has at least as many pages as either input has different pages.  When
  neither input repeats a page, it is at least as long as the longer input.
\<close>

theorem merge_length_bounds:
  "length (pages (mergeNotes lib now dev l r)) \<le> length (pages l) + length (pages r) \<and>
   max (card (set (pages l))) (card (set (pages r))) \<le> length (pages (mergeNotes lib now dev l r)) \<and>
   (distinct (pages l) \<and> distinct (pages r) \<longrightarrow>
      max (length (pages l)) (length (pages r)) \<le> length (pages (mergeNotes lib now dev l r)))"
proof -
  let ?n = "length (pages (mergeNotes lib now dev l r))"
  have n: "?n = card (set (pages l) \<union> set (pages r))"
    by (simp add: pages_mergeNotes Array_from_Set_first_occurrences length_first_occurrences)
  have upper: "?n \<le> length (pages l) + length (pages r)"
    using card_length [of "pages l @ pages r"] by (simp add: n)
  have ll: "card (set (pages l)) \<le> ?n"
    unfolding n by (rule card_mono) auto
  have lr: "card (set (pages r)) \<le> ?n"
    unfolding n by (rule card_mono) auto
  show ?thesis
    using upper ll lr by (auto simp: distinct_card)
qed

theorem merge_length_bounds_witness:
  "distinct (pages (demo_doc ''1970-01-01T00:00:01.000Z'' 0 [''A'', ''B''] None)) \<and>
   distinct (pages (demo_doc ''1970-01-01T00:00:02.000Z'' 1 [''B'', ''C''] None)) \<and>
   max (length (pages (demo_doc ''1970-01-01T00:00:01.000Z'' 0 [''A'', ''B''] None)))
       (length (pages (demo_doc ''1970-01-01T00:00:02.000Z'' 1 [''B'', ''C''] None)))
     \<le> length (pages (mergeNotes demo_lib 5000 ''device-1''
            (demo_doc ''1970-01-01T00:00:01.000Z'' 0 [''A'', ''B''] None)
            (demo_doc ''1970-01-01T00:00:02.000Z'' 1 [''B'', ''C''] None)))"
  using merge_length_bounds [of demo_lib 5000 "''device-1''"
          "demo_doc ''1970-01-01T00:00:01.000Z'' 0 [''A'', ''B''] None"
          "demo_doc ''1970-01-01T00:00:02.000Z'' 1 [''B'', ''C''] None"]
  by (simp add: demo_doc_def)

theorem merge_lower_bound_counterexample:
  "\<not> max (length (pages (demo_doc ''1970-01-01T00:00:01.000Z'' 0 [''A'', ''A''] None)))
         (length (pages (demo_doc ''1970-01-01T00:00:02.000Z'' 0 [] None)))
       \<le> length (pages (mergeNotes demo_lib 5000 ''device-1''
            (demo_doc ''1970-01-01T00:00:01.000Z'' 0 [''A'', ''A''] None)
            (demo_doc ''1970-01-01T00:00:02.000Z'' 0 [] None)))"
  by (simp add: pages_mergeNotes Array_from_Set_def Set_add_def demo_doc_def)

text \<open>
  Claim C9.  When the two \<^verbatim>\<open>lastModified\<close> stamps denote the same instant, the merge takes
  \<^verbatim>\<open>state\<close> and \<^verbatim>\<open>currentPage\<close> from the remote document.
\<close>

theorem merge_tie_takes_remote:
  "Date_getTime lib (lastModified l) = Some t \<Longrightarrow>
   Date_getTime lib (lastModified r) = Some t \<Longrightarrow>
   state (mergeNotes lib now dev l r) = state r \<and>
   currentPage (mergeNotes lib now dev l r) =
     Math_min (currentPage r) (int (length (pages (mergeNotes lib now dev l r))) - 1)"
  by (simp add: state_mergeNotes currentPage_mergeNotes js_gt_def)

theorem merge_tie_takes_remote_witness:
  "Date_getTime demo_lib (lastModified (demo_doc ''1970-01-01T00:00:02.000Z'' 0 [''A'', ''B''] None)) = Some 2000 \<and>
   Date_getTime demo_lib (lastModified ((demo_doc ''1970-01-01T00:00:02.000Z'' 1 [''B'', ''C''] None)\<lparr>state := Some Render\<rparr>)) = Some 2000 \<and>
   state (mergeNotes demo_lib 5000 ''device-1''
            (demo_doc ''1970-01-01T00:00:02.000Z'' 0 [''A'', ''B''] None)
            ((demo_doc ''1970-01-01T00:00:02.000Z'' 1 [''B'', ''C''] None)\<lparr>state := Some Render\<rparr>)) = Some Render \<and>
   currentPage (mergeNotes demo_lib 5000 ''device-1''
            (demo_doc ''1970-01-01T00:00:02.000Z'' 0 [''A'', ''B''] None)
            ((demo_doc ''1970-01-01T00:00:02.000Z'' 1 [''B'', ''C''] None)\<lparr>state := Some Render\<rparr>)) = Some 1"
proof -
  have a: "Date_getTime demo_lib (lastModified (demo_doc ''1970-01-01T00:00:02.000Z'' 0 [''A'', ''B''] None)) = Some 2000"
    by (simp add: demo_lib_def demo_getTime_def demo_doc_def)
  have b: "Date_getTime demo_lib (lastModified ((demo_doc ''1970-01-01T00:00:02.000Z'' 1 [''B'', ''C''] None)\<lparr>state := Some Render\<rparr>)) = Some 2000"
    by (simp add: demo_lib_def demo_getTime_def demo_doc_def)
  show ?thesis
    using a b merge_tie_takes_remote [OF a b, of 5000 "''device-1''"]
    by (simp add: demo_doc_def Math_min_def pages_mergeNotes Array_from_Set_def Set_add_def)
qed

text \<open>
  Claim C4.  The code computes the page index with \<^verbatim>\<open>Math.min\<close> alone.  Merging two
  documents without pages and with current page 0 gives the current page \<open>-1\<close>, where the
  claim promises 0.
\<close>

theorem merge_empty_currentPage_negative:
  "pages (mergeNotes demo_lib 5000 ''device-1''
            (demo_doc ''1970-01-01T00:00:01.000Z'' 0 [] (Some []))
            (demo_doc ''1970-01-01T00:00:02.000Z'' 0 [] (Some []))) = [] \<and>
   currentPage (mergeNotes demo_lib 5000 ''device-1''
            (demo_doc ''1970-01-01T00:00:01.000Z'' 0 [] (Some []))
            (demo_doc ''1970-01-01T00:00:02.000Z'' 0 [] (Some []))) = Some (- 1)"
  by (simp add: pages_mergeNotes currentPage_mergeNotes Array_from_Set_def demo_doc_def Math_min_def)

section \<open>Properties of saving and loading\<close>

lemma createBackup_fields:
  "this_deviceId (snd (createBackup lib cfg now w)) = this_deviceId w"
  "lastKnownModTime (snd (createBackup lib cfg now w)) = lastKnownModTime w"
  "notesFile (snd (createBackup lib cfg now w)) = notesFile w"
  by (auto simp: createBackup_def Let_def cleanupOldBackups_def copyFile_def
                 ensureBackupDirectory_def split: option.splits)

lemma writeNotes_eq:
  "writeNotes lib cfg now notesData w =
     (Inr ((stampNotes lib now (this_deviceId w) notesData)
             \<lparr>metadata := (metadata (stampNotes lib now (this_deviceId w) notesData))
                            \<lparr>fileModTime := Some now\<rparr>\<rparr>),
      (writeFile (JSON_stringify lib (stampNotes lib now (this_deviceId w) notesData)) now
         (snd (createBackup lib cfg now w)))\<lparr>lastKnownModTime := now\<rparr>)"
  by (simp add: writeNotes_def Let_def writeFile_def createBackup_fields)

lemma saveNotes_skip:
  "saveNotes lib cfg now notesData True w = writeNotes lib cfg now notesData w"
  by (simp add: saveNotes.simps)

lemma saveNotes_older_eq:
  "saveNotes_older lib cfg now notesData w =
     (stampNotes lib now (this_deviceId w) notesData,
      writeFile (JSON_stringify lib (stampNotes lib now (this_deviceId w) notesData)) now
         (snd (createBackup lib cfg now w)))"
  by (simp add: saveNotes_older_def Let_def createBackup_fields)

text \<open>
  Claim C10.  Given the same device id and the same clock reading, the older
  \<^verbatim>\<open>saveNotes\<close> and the newer one called with \<^verbatim>\<open>skipConflictCheck = true\<close> write the same
  text into the notes file, whatever the document.  On the same state the newer variant
  differs only in the watermark, which it sets after the write, and in the
  \<^verbatim>\<open>fileModTime\<close> it records in the document it was given.
\<close>

theorem older_and_newer_save_write_the_same:
  "this_deviceId w_old = this_deviceId w_new \<Longrightarrow>
   notesFile (snd (saveNotes_older lib cfg_old now notesData w_old)) =
     Some \<lparr> content = JSON_stringify lib (stampNotes lib now (this_deviceId w_old) notesData),
            mtime = now \<rparr> \<and>
   notesFile (snd (saveNotes lib cfg_new now notesData True w_new)) =
     notesFile (snd (saveNotes_older lib cfg_old now notesData w_old)) \<and>
   snd (saveNotes lib cfg_old now notesData True w_old) =
     (snd (saveNotes_older lib cfg_old now notesData w_old))\<lparr>lastKnownModTime := now\<rparr> \<and>
   fst (saveNotes lib cfg_old now notesData True w_old) =
     Inr ((fst (saveNotes_older lib cfg_old now notesData w_old))
            \<lparr>metadata := (metadata (fst (saveNotes_older lib cfg_old now notesData w_old)))
                           \<lparr>fileModTime := Some now\<rparr>\<rparr>)"
  by (simp add: saveNotes_skip writeNotes_eq saveNotes_older_eq writeFile_def)

theorem older_and_newer_save_write_the_same_witness:
  "this_deviceId (demo_world notes_text) =
     this_deviceId ((demo_world old_notes_text)\<lparr>lastKnownModTime := 1000\<rparr>) \<and>
   notesFile (snd (saveNotes demo_lib demo_cfg 5000
                     (demo_doc ''1970-01-01T00:00:01.000Z'' 0 [''p0'', ''p1''] None) True
                     ((demo_world old_notes_text)\<lparr>lastKnownModTime := 1000\<rparr>))) =
   notesFile (snd (saveNotes_older demo_lib demo_cfg 5000
                     (demo_doc ''1970-01-01T00:00:01.000Z'' 0 [''p0'', ''p1''] None)
                     (demo_world notes_text)))"
proof -
  have h: "this_deviceId (demo_world notes_text) =
             this_deviceId ((demo_world old_notes_text)\<lparr>lastKnownModTime := 1000\<rparr>)"
    by (simp add: demo_world_def)
  show ?thesis
    using h older_and_newer_save_write_the_same [OF h, of demo_lib demo_cfg 5000
            "demo_doc ''1970-01-01T00:00:01.000Z'' 0 [''p0'', ''p1''] None" demo_cfg]
    by simp
qed

text \<open>
  Claim C2.  The watermark is set to \<open>t0\<close> (the code keeps 0 for a watermark that was
  never set), the notes file on disk has the later modification time \<open>t1\<close>, and the
  policy is \<^verbatim>\<open>manual\<close>.  Then \<^verbatim>\<open>saveNotes\<close> without \<^verbatim>\<open>skipConflictCheck\<close> fails with
  \<^verbatim>\<open>CONFLICT_DETECTED\<close> and changes nothing: the notes file, the backups and the
  watermark are as before.
\<close>

theorem save_conflict_manual:
  "lastKnownModTime w = t0 \<Longrightarrow> 0 < t0 \<Longrightarrow> notesFile w = Some f \<Longrightarrow> mtime f = t1 \<Longrightarrow>
   t0 < t1 \<Longrightarrow> sync_conflictResolution cfg = Manual \<Longrightarrow>
   saveNotes lib cfg now notesData False w = (Inl CONFLICT_DETECTED, w)"
  by (simp add: saveNotes.simps)

theorem save_conflict_manual_witness:
  "lastKnownModTime ((demo_world notes_text)\<lparr>lastKnownModTime := 500\<rparr>) = 500 \<and>
   (0::int) < 500 \<and>
   notesFile ((demo_world notes_text)\<lparr>lastKnownModTime := 500\<rparr>) =
     Some \<lparr> content = notes_text, mtime = 1000 \<rparr> \<and>
   mtime \<lparr> content = notes_text, mtime = 1000 \<rparr> = 1000 \<and>
   (500::int) < 1000 \<and>
   sync_conflictResolution demo_cfg = Manual \<and>
   saveNotes demo_lib demo_cfg 5000
     (demo_doc ''1970-01-01T00:00:01.000Z'' 1 [''p0'', ''p1'', ''p2''] None) False
     ((demo_world notes_text)\<lparr>lastKnownModTime := 500\<rparr>) =
     (Inl CONFLICT_DETECTED, (demo_world notes_text)\<lparr>lastKnownModTime := 500\<rparr>)"
proof -
  have h1: "lastKnownModTime ((demo_world notes_text)\<lparr>lastKnownModTime := 500\<rparr>) = 500"
    by simp
  have h2: "(0::int) < 500" by simp
  have h3: "notesFile ((demo_world notes_text)\<lparr>lastKnownModTime := 500\<rparr>) =
              Some \<lparr> content = notes_text, mtime = 1000 \<rparr>"
    by (simp add: demo_world_def)
  have h4: "mtime \<lparr> content = notes_text, mtime = 1000 \<rparr> = 1000" by simp
  have h5: "(500::int) < 1000" by simp
  have h6: "sync_conflictResolution demo_cfg = Manual" by (simp add: demo_cfg_def)
  show ?thesis
    using h3 h6 save_conflict_manual [OF h1 h2 h3 h4 h5 h6, of demo_lib 5000
            "demo_doc ''1970-01-01T00:00:01.000Z'' 1 [''p0'', ''p1'', ''p2''] None"]
    by simp
qed

lemma map_of_replace:
  "name \<in> fst ` set d \<Longrightarrow>
   map_of (map (\<lambda>e. if fst e = name then (fst e, f) else e) d) name = Some f"
  by (induction d) auto

lemma dir_put_alt:
  "dir_put name f d =
     (if name \<in> fst ` set d then map (\<lambda>e. if fst e = name then (fst e, f) else e) d
      else d @ [(name, f)])"
  by (simp add: dir_put_def case_prod_beta cong: if_cong)

lemma map_of_dir_put: "map_of (dir_put name f d) name = Some f"
proof (cases "name \<in> fst ` set d")
  case True
  then show ?thesis by (simp add: dir_put_alt map_of_replace)
next
  case False
  then have "map_of d name = None"
    by (simp add: map_of_eq_None_iff)
  with False show ?thesis by (simp add: dir_put_alt map_add_def)
qed

lemma migrateLegacy_pages:
  assumes "looksLegacy (PObject j)" "j_pages j = Some (PagesArray ps)"
  shows "migrateLegacy lib now f (PObject j) w =
           (Some (Notes (convertLegacyData lib now (this_deviceId w)
                    \<lparr> legacy_state = j_state j, legacy_currentPage = j_currentPage j,
                      legacy_pages = ps \<rparr>)),
            writeFile (JSON_stringify lib (convertLegacyData lib now (this_deviceId w)
                    \<lparr> legacy_state = j_state j, legacy_currentPage = j_currentPage j,
                      legacy_pages = ps \<rparr>)) now
              (copyFile f (preMigrationFileName lib now) now (ensureBackupDirectory w)))"
  using assms
  by (simp add: migrateLegacy_def Let_def convertLegacyData_unchecked_def copyFile_def
                ensureBackupDirectory_def split: option.splits)

lemma backup_after_copy:
  "\<exists>d. backupDir (copyFile f name now (ensureBackupDirectory w)) = Some d \<and>
       map_of d name = Some \<lparr> content = content f, mtime = now \<rparr>"
  by (auto simp: copyFile_def ensureBackupDirectory_def map_of_dir_put split: option.splits)

lemma preMigrationFileName_eq:
  "preMigrationFileName lib now =
     ''pre-migration-'' @
     map (\<lambda>c. if c = CHR '':'' \<or> c = CHR ''.'' then CHR ''-'' else c) (toISOString lib now) @
     ''.json''"
  by (simp add: preMigrationFileName_def replace_colons_dots_def)

lemma loadNotes_legacy_pages:
  assumes "notesFile w = Some f"
    and "JSON_parse lib (content f) = Some (PObject j)"
    and "looksLegacy (PObject j)"
    and "j_pages j = Some (PagesArray ps)"
  shows "loadNotes lib cfg now w =
           (Inr (Notes (convertLegacyData lib now (this_deviceId w)
                    \<lparr> legacy_state = j_state j, legacy_currentPage = j_currentPage j,
                      legacy_pages = ps \<rparr>)),
            writeFile (JSON_stringify lib (convertLegacyData lib now (this_deviceId w)
                    \<lparr> legacy_state = j_state j, legacy_currentPage = j_currentPage j,
                      legacy_pages = ps \<rparr>)) now
              (copyFile f (preMigrationFileName lib now) now (ensureBackupDirectory w)))"
  using assms(1,2)
  by (simp add: loadNotes.simps migrateLegacy_pages [OF assms(3,4)])

text \<open>
  Claim C5.  The notes file holds a JSON object without \<^verbatim>\<open>version\<close>, or with version 1,
  whose \<^verbatim>\<open>pages\<close> is an array.  Then \<^verbatim>\<open>loadNotes\<close> returns the migrated document: version
  2, the \<^verbatim>\<open>state\<close>, \<^verbatim>\<open>currentPage\<close> and \<^verbatim>\<open>pages\<close> of the file, bookmarks all false and as
  many as pages, \<^verbatim>\<open>totalPages\<close> the number of pages; it writes that document to the notes
  file, and the backup folder holds a file with the text the notes file had, named
  \<^verbatim>\<open>pre-migration-\<close>, then the clock reading as \<^verbatim>\<open>toISOString\<close> prints it with every colon
  and dot replaced by a hyphen, then \<^verbatim>\<open>.json\<close>.
\<close>

theorem load_migrates_legacy_file:
  assumes "notesFile w = Some f"
    and "JSON_parse lib (content f) = Some (PObject j)"
    and "j_version j = None \<or> j_version j = Some 1"
    and "j_pages j = Some (PagesArray ps)"
  shows "(case fst (loadNotes lib cfg now w) of
            Inr (Notes migrated) \<Rightarrow>
              version migrated = 2 \<and> state migrated = j_state j \<and>
              currentPage migrated = j_currentPage j \<and> pages migrated = ps \<and>
              bookmarks migrated = Some (replicate (length ps) False) \<and>
              totalPages (metadata migrated) = int (length ps) \<and>
              notesFile (snd (loadNotes lib cfg now w)) =
                Some \<lparr> content = JSON_stringify lib migrated, mtime = now \<rparr>
          | _ \<Rightarrow> False) \<and>
         backupEntry (snd (loadNotes lib cfg now w))
           (''pre-migration-'' @
            map (\<lambda>c. if c = CHR '':'' \<or> c = CHR ''.'' then CHR ''-'' else c)
              (toISOString lib now) @
            ''.json'') =
           Some \<lparr> content = content f, mtime = now \<rparr>"
proof -
  have legacy: "looksLegacy (PObject j)"
    using assms(3) by (auto simp: looksLegacy_def)
  obtain d where d:
    "backupDir (copyFile f (preMigrationFileName lib now) now (ensureBackupDirectory w)) = Some d"
    "map_of d (preMigrationFileName lib now) = Some \<lparr> content = content f, mtime = now \<rparr>"
    using backup_after_copy by blast
  show ?thesis
    using d unfolding preMigrationFileName_eq [symmetric]
    by (simp add: loadNotes_legacy_pages [OF assms(1,2) legacy assms(4)]
                  convertLegacyData_def writeFile_def backupEntry_def)
qed

theorem load_migrates_legacy_file_witness:
  "notesFile (demo_world legacy_text) = Some \<lparr> content = legacy_text, mtime = 1000 \<rparr> \<and>
   JSON_parse demo_lib (content \<lparr> content = legacy_text, mtime = 1000 \<rparr>) =
     Some (PObject legacy_json) \<and>
   (j_version legacy_json = None \<or> j_version legacy_json = Some 1) \<and>
   j_pages legacy_json = Some (PagesArray [''hello'']) \<and>
   (case fst (loadNotes demo_lib demo_cfg 5000 (demo_world legacy_text)) of
      Inr (Notes migrated) \<Rightarrow>
        version migrated = 2 \<and> state migrated = Some Editor \<and>
        currentPage migrated = Some 0 \<and> pages migrated = [''hello''] \<and>
        bookmarks migrated = Some [False] \<and>
        totalPages (metadata migrated) = 1 \<and>
        notesFile (snd (loadNotes demo_lib demo_cfg 5000 (demo_world legacy_text))) =
          Some \<lparr> content = JSON_stringify demo_lib migrated, mtime = 5000 \<rparr>
    | _ \<Rightarrow> False) \<and>
   backupEntry (snd (loadNotes demo_lib demo_cfg 5000 (demo_world legacy_text)))
     ''pre-migration-1970-01-01T00-00-05-000Z.json'' =
     Some \<lparr> content = legacy_text, mtime = 5000 \<rparr>"
proof -
  have h1: "notesFile (demo_world legacy_text) = Some \<lparr> content = legacy_text, mtime = 1000 \<rparr>"
    by (simp add: demo_world_def)
  have h2: "JSON_parse demo_lib (content \<lparr> content = legacy_text, mtime = 1000 \<rparr>) =
              Some (PObject legacy_json)"
    by (simp add: demo_lib_def demo_parse_def)
  have h3: "j_version legacy_json = None \<or> j_version legacy_json = Some 1"
    by (simp add: legacy_json_def)
  have h4: "j_pages legacy_json = Some (PagesArray [''hello''])"
    by (simp add: legacy_json_def)
  have name: "''pre-migration-'' @
              map (\<lambda>c. if c = CHR '':'' \<or> c = CHR ''.'' then CHR ''-'' else c)
                (toISOString demo_lib 5000) @ ''.json'' =
              ''pre-migration-1970-01-01T00-00-05-000Z.json''"
    by code_simp
  show ?thesis
    using h1 h2 h3 h4 load_migrates_legacy_file [OF h1 h2 h3 h4, of demo_cfg 5000]
    unfolding name
    by (auto simp add: legacy_json_def split: sum.splits loaded.splits)
qed
section \<open>Runs of the examples\<close>

lemma demo_load:
  "loadNotes demo_lib demo_cfg 5000 (demo_world notes_text) =
     (Inr (Notes demo_loaded), (demo_world notes_text)\<lparr>lastKnownModTime := 1000\<rparr>)"
  by code_simp

lemma demo_toggle:
  "fst (toggleBookmark demo_lib demo_cfg 5000 0 None (demo_world notes_text)) =
     Inr (Notes (demo_saved (Some [True, False])))"
  by code_simp

lemma demo_toggle_out_of_range:
  "toggleBookmark demo_lib demo_cfg 5000 7 None (demo_world notes_text) =
     (Inr Null, (demo_world notes_text)\<lparr>lastKnownModTime := 1000\<rparr>)"
  by code_simp

lemma demo_setBookmarks:
  "fst (setBookmarks demo_lib demo_cfg 5000 [0, 1, 5, - 1] True (demo_world notes_text)) =
     Inr (Notes (demo_saved (Some [True, True])))"
  by code_simp

lemma demo_save:
  "fst (saveNotes demo_lib demo_cfg 5000
          (demo_doc ''1970-01-01T00:00:01.000Z'' 0 [''p0'', ''p1''] None) False
          (demo_world notes_text)) = Inr (demo_saved None)"
  by code_simp

lemma demo_restore:
  "fst (restoreFromBackup demo_lib demo_cfg 5000 ''backup-1970-01-01T00-00-00.json''
          demo_world_with_backup) = Inr (demo_saved None)"
  by code_simp

lemma demo_toggle_rewrites_old_file:
  "notesFile (snd (toggleBookmark demo_lib demo_cfg 5000 7 None (demo_world old_notes_text))) =
     Some \<lparr> content = demo_stringify ((demo_saved (Some [False, False]))
                           \<lparr>metadata := (metadata (demo_saved None))\<lparr>fileModTime := Some 1000\<rparr>\<rparr>),
            mtime = 5000 \<rparr>"
  by code_simp

lemma demo_backup_entry:
  "backupEntry demo_world_with_backup ''backup-1970-01-01T00-00-00.json'' =
     Some \<lparr> content = old_notes_text, mtime = 900 \<rparr>"
  by code_simp

lemma demo_parse_texts:
  "JSON_parse demo_lib notes_text = Some (PObject notes_json)"
  "JSON_parse demo_lib old_notes_text = Some (PObject (notes_json\<lparr>j_bookmarks := None\<rparr>))"
  "JSON_parse demo_lib legacy_text = Some (PObject legacy_json)"
  "JSON_parse demo_lib pages_number_text = Some (PObject pages_number_json)"
  by code_simp+

lemma demo_load_pages_number:
  "fst (loadNotes demo_lib demo_cfg 5000 (demo_world pages_number_text)) =
     Inr (Unchecked demo_unchecked)"
  by code_simp

lemma demo_toggle_legacy_out_of_range:
  "fst (toggleBookmark demo_lib demo_cfg 5000 7 None (demo_world legacy_text)) = Inr Null"
  by code_simp


lemma demo_three_backups:
  "storedBackups (snd (createBackup demo_lib demo_cfg 3002
                    (snd (createBackup demo_lib demo_cfg 2001
                       (snd (createBackup demo_lib demo_cfg 1000 (demo_world notes_text))))))) =
     [(''backup-1970-01-01T00-00-02.json'', \<lparr>content = notes_text, mtime = 2001\<rparr>),
      (''backup-1970-01-01T00-00-03.json'', \<lparr>content = notes_text, mtime = 3002\<rparr>)]"
  by code_simp


lemma demo_load_old:
  "fst (loadNotes demo_lib demo_cfg 5000 (demo_world old_notes_text)) =
     Inr (Notes (demo_saved (Some [False, False])))"
  by code_simp

lemma demo_load_legacy:
  "fst (loadNotes demo_lib demo_cfg 5000 (demo_world legacy_text)) = Inr (Notes demo_migrated)"
  by code_simp

lemma demo_premigration_name:
  "''pre-migration-'' @
   map (\<lambda>c. if c = CHR '':'' \<or> c = CHR ''.'' then CHR ''-'' else c) (toISOString demo_lib 5000) @
   ''.json'' = ''pre-migration-1970-01-01T00-00-05-000Z.json''"
  by code_simp

lemma demo_toggle_old_out_of_range:
  "toggleBookmark demo_lib demo_cfg 5000 7 None (demo_world old_notes_text) =
     (Inr Null, snd (loadNotes demo_lib demo_cfg 5000 (demo_world old_notes_text)))"
  by code_simp

lemma demo_toggle_pages_number:
  "fst (toggleBookmark demo_lib demo_cfg 5000 3 None (demo_world pages_number_text)) =
     Inr (Unchecked (demo_unchecked\<lparr> u_bookmarks := [Some False, None, None, Some True],
                                     u_fileModTime := Some 5000 \<rparr>))"
  by code_simp

lemma demo_toggle_pages_number_file:
  "map_option content
     (notesFile (snd (toggleBookmark demo_lib demo_cfg 5000 3 None
                        (demo_world pages_number_text)))) =
     Some (''{'' @ show_field ''version'' ''2'' @ '','' @
           show_field ''lastModified'' (show_string ''1970-01-01T00:00:05.000Z'') @ '','' @
           show_field ''deviceId'' (show_string ''device-1'') @ '','' @
           show_field ''pages'' ''7'' @ '','' @
           show_field ''bookmarks'' ''[false,null,null,true]'' @ '','' @
           show_field ''metadata''
             (''{'' @ show_field ''createdAt'' (show_string ''1970-01-01T00:00:05.000Z'') @ '','' @
              show_field ''syncStatus'' (show_string ''pending'') @ ''}'') @
           ''}'')"
  by code_simp
section \<open>Properties of the bookmarks\<close>

lemma saveNotes_keeps_pages_bookmarks:
  assumes "saveNotes lib cfg now notesData skip w = (Inr d, w')"
  shows "pages d = pages notesData \<and> bookmarks d = bookmarks notesData"
proof -
  have "\<exists>w0. writeNotes lib cfg now notesData w0 = (Inr d, w')"
    using assms
    by (subst (asm) saveNotes.simps)
       (auto split: if_splits option.splits sum.splits prod.splits)
  then obtain w0 where "writeNotes lib cfg now notesData w0 = (Inr d, w')"
    by blast
  then show ?thesis
    by (auto simp: writeNotes_eq stampNotes_def)
qed

lemma bookmarksAligned_convertLegacyData:
  "bookmarksAligned (convertLegacyData lib now dev legacyData)"
  by (simp add: bookmarksAligned_def convertLegacyData_def)

lemma migrateLegacy_aligned:
  "migrateLegacy lib now f p w = (Some (Notes migrated), w1) \<Longrightarrow> bookmarksAligned migrated"
  by (auto simp: migrateLegacy_def Let_def convertLegacyData_unchecked_def
                 bookmarksAligned_convertLegacyData
           split: if_splits parsed.splits sum.splits option.splits pages_json.splits)

lemma bookmarksMismatch_aligned: "bookmarksMismatch d = (\<not> bookmarksAligned d)"
  by (simp add: bookmarksMismatch_def bookmarksAligned_def split: option.splits)

lemma bookmarksAligned_withFileModTime:
  "bookmarksAligned (withFileModTime t d) = bookmarksAligned d"
  by (cases "bookmarks d") (simp_all add: bookmarksAligned_def withFileModTime_def)

lemma bookmarksAligned_freshBookmarks: "bookmarksAligned (freshBookmarks d)"
  by (simp add: bookmarksAligned_def freshBookmarks_def)

lemma saveNotes_aligned:
  "saveNotes lib cfg now notesData skip w = (Inr d, w') \<Longrightarrow> bookmarksAligned notesData \<Longrightarrow>
   bookmarksAligned d"
  using saveNotes_keeps_pages_bookmarks [of lib cfg now notesData skip w d w']
  by (auto simp: bookmarksAligned_def split: option.splits)

lemma loadNotes_aligned:
  assumes "loadNotes lib cfg now w = (Inr (Notes d), w')"
  shows "bookmarksAligned d"
  using assms
  by (subst (asm) loadNotes.simps)
     (auto simp: Let_def bookmarksMismatch_aligned bookmarksAligned_withFileModTime
           dest: migrateLegacy_aligned
           dest!: saveNotes_aligned [OF _ bookmarksAligned_freshBookmarks]
           split: option.splits sum.splits prod.splits if_splits)

lemma length_ensuredBookmarks: "length (ensuredBookmarks d) = length (pages d)"
  by (simp add: ensuredBookmarks_def split: option.splits)

lemma toggleBookmark_aligned:
  assumes "toggleBookmark lib cfg now pageIndex val w = (Inr (Notes d), w')"
  shows "bookmarksAligned d"
  using assms
  by (auto simp: toggleBookmark_def Let_def bookmarksAligned_def length_ensuredBookmarks
           dest!: saveNotes_keeps_pages_bookmarks
           split: option.splits sum.splits prod.splits if_splits loaded.splits)

lemma length_setBookmarks_loop:
  "length (foldl (\<lambda>acc idx. if idx \<ge> 0 \<and> idx < n then acc[nat idx := v] else acc) bs indices)
     = length bs"
  by (induction indices arbitrary: bs) auto

lemma setBookmarks_aligned:
  assumes "setBookmarks lib cfg now indices val w = (Inr (Notes d), w')"
  shows "bookmarksAligned d"
  using assms
  by (auto simp: setBookmarks_def Let_def bookmarksAligned_def length_ensuredBookmarks
                 length_setBookmarks_loop
           dest!: saveNotes_keeps_pages_bookmarks
           split: option.splits sum.splits prod.splits if_splits loaded.splits)

lemma length_markBookmarks: "length (markBookmarks m ps bs acc) = length acc"
proof (cases bs)
  case None
  then show ?thesis by (simp add: markBookmarks_def)
next
  case (Some b)
  have "length (foldl (\<lambda>acc (page, idx).
                   (case m page of
                      None \<Rightarrow> acc
                    | Some newIdx \<Rightarrow>
                        if idx < length b \<and> b ! idx then acc[newIdx := True] else acc))
                acc es) = length acc" for es
    by (induction es arbitrary: acc) (auto split: option.splits)
  then show ?thesis using Some by (simp add: markBookmarks_def)
qed

lemma bookmarksAligned_mergeNotes: "bookmarksAligned (mergeNotes lib now dev l r)"
  by (simp add: bookmarksAligned_def mergeNotes_def Let_def length_markBookmarks)

lemma restoreFromBackup_keeps_pages_bookmarks:
  assumes "restoreFromBackup lib cfg now backupPath w = (Inr restored, w')"
    and "backupEntry w backupPath = Some b"
    and "JSON_parse lib (content b) = Some p"
  shows "pages restored = pages (as_NotesData p) \<and> bookmarks restored = bookmarks (as_NotesData p)"
proof -
  have "saveNotes lib cfg now (as_NotesData p) False w = (Inr restored, w')"
    using assms
    by (auto simp: restoreFromBackup_def backupEntry_def split: sum.splits if_splits)
  then show ?thesis
    by (rule saveNotes_keeps_pages_bookmarks)
qed

lemma loadNotes_pages_number:
  assumes "notesFile w = Some f"
    and "JSON_parse lib (content f) = Some (PObject j)"
    and "looksLegacy (PObject j)"
    and "j_pages j = Some (PagesOther (ONum n))"
  shows "fst (loadNotes lib cfg now w) =
           Inr (Unchecked \<lparr> u_version = 2, u_lastModified = toISOString lib now,
                             u_deviceId = this_deviceId w, u_state = j_state j,
                             u_currentPage = j_currentPage j, u_pages = ONum n,
                             u_bookmarks = [Some False], u_totalPages = None,
                             u_createdAt = toISOString lib now, u_syncStatus = Some Pending,
                             u_fileModTime = None \<rparr>)"
  using assms
  by (simp add: loadNotes.simps migrateLegacy_def Let_def convertLegacyData_unchecked_def
                js_length_def Array_fill_false_def copyFile_def ensureBackupDirectory_def
           split: option.splits)

text \<open>
  Claim C1, amended.  The files considered hold JSON whose members have the types the
  interface \<^verbatim>\<open>NotesData\<close> declares, except that \<^verbatim>\<open>pages\<close> may be any JSON value.  A document
  returned by \<^verbatim>\<open>loadNotes\<close>, \<^verbatim>\<open>toggleBookmark\<close>, \<^verbatim>\<open>setBookmarks\<close>, \<^verbatim>\<open>mergeNotes\<close> or
  \<^verbatim>\<open>convertLegacyData\<close> has bookmarks, one for each page.  \<^verbatim>\<open>saveNotes\<close> and
  \<^verbatim>\<open>restoreFromBackup\<close> leave the document with the pages and the bookmarks it came with.
  The default document of the migration service has one empty page and no bookmarks.
  And \<^verbatim>\<open>loadNotes\<close> does not always return a document: for a legacy file whose \<^verbatim>\<open>pages\<close> is
  a number it returns the object \<^verbatim>\<open>convertLegacyData\<close> built, with that number as \<^verbatim>\<open>pages\<close>,
  the one bookmark \<^verbatim>\<open>false\<close> and no \<^verbatim>\<open>totalPages\<close>.
\<close>

theorem bookmarks_aligned_where_built:
  "(fst (loadNotes lib cfg now w) = Inr (Notes loaded) \<longrightarrow> bookmarksAligned loaded) \<and>
   (fst (toggleBookmark lib cfg now pageIndex val w) = Inr (Notes toggled) \<longrightarrow>
      bookmarksAligned toggled) \<and>
   (fst (setBookmarks lib cfg now indices v w) = Inr (Notes changed) \<longrightarrow>
      bookmarksAligned changed) \<and>
   bookmarksAligned (mergeNotes lib now dev localData remoteData) \<and>
   bookmarksAligned (convertLegacyData lib now dev legacyData) \<and>
   (fst (saveNotes lib cfg now notesData skip w) = Inr saved \<longrightarrow>
      pages saved = pages notesData \<and> bookmarks saved = bookmarks notesData) \<and>
   (fst (restoreFromBackup lib cfg now backupPath w) = Inr restored \<longrightarrow>
    backupEntry w backupPath = Some b \<longrightarrow> JSON_parse lib (content b) = Some p \<longrightarrow>
      pages restored = pages (as_NotesData p) \<and> bookmarks restored = bookmarks (as_NotesData p)) \<and>
   pages (createDefaultNotes lib now) = [''''] \<and>
   bookmarks (createDefaultNotes lib now) = None \<and>
   (notesFile w = Some f \<longrightarrow> JSON_parse lib (content f) = Some (PObject j) \<longrightarrow>
    j_version j = None \<or> j_version j = Some 1 \<longrightarrow> j_pages j = Some (PagesOther (ONum n)) \<longrightarrow>
      (case fst (loadNotes lib cfg now w) of
         Inr (Unchecked u) \<Rightarrow>
           u_pages u = ONum n \<and> u_bookmarks u = [Some False] \<and> u_totalPages u = None
       | _ \<Rightarrow> False))"
proof (intro conjI impI)
  assume "fst (loadNotes lib cfg now w) = Inr (Notes loaded)"
  then have "loadNotes lib cfg now w = (Inr (Notes loaded), snd (loadNotes lib cfg now w))"
    by (simp add: prod_eq_iff)
  then show "bookmarksAligned loaded" by (rule loadNotes_aligned)
next
  assume "fst (toggleBookmark lib cfg now pageIndex val w) = Inr (Notes toggled)"
  then have "toggleBookmark lib cfg now pageIndex val w =
               (Inr (Notes toggled), snd (toggleBookmark lib cfg now pageIndex val w))"
    by (simp add: prod_eq_iff)
  then show "bookmarksAligned toggled" by (rule toggleBookmark_aligned)
next
  assume "fst (setBookmarks lib cfg now indices v w) = Inr (Notes changed)"
  then have "setBookmarks lib cfg now indices v w =
               (Inr (Notes changed), snd (setBookmarks lib cfg now indices v w))"
    by (simp add: prod_eq_iff)
  then show "bookmarksAligned changed" by (rule setBookmarks_aligned)
next
  show "bookmarksAligned (mergeNotes lib now dev localData remoteData)"
    by (rule bookmarksAligned_mergeNotes)
next
  show "bookmarksAligned (convertLegacyData lib now dev legacyData)"
    by (rule bookmarksAligned_convertLegacyData)
next
  assume "fst (saveNotes lib cfg now notesData skip w) = Inr saved"
  then have s: "saveNotes lib cfg now notesData skip w =
               (Inr saved, snd (saveNotes lib cfg now notesData skip w))"
    by (simp add: prod_eq_iff)
  show "pages saved = pages notesData"
    using saveNotes_keeps_pages_bookmarks [OF s] by simp
  show "bookmarks saved = bookmarks notesData"
    using saveNotes_keeps_pages_bookmarks [OF s] by simp
next
  assume "fst (restoreFromBackup lib cfg now backupPath w) = Inr restored"
    and b: "backupEntry w backupPath = Some b" and p: "JSON_parse lib (content b) = Some p"
  then have r: "restoreFromBackup lib cfg now backupPath w =
               (Inr restored, snd (restoreFromBackup lib cfg now backupPath w))"
    by (simp add: prod_eq_iff)
  show "pages restored = pages (as_NotesData p)"
    using restoreFromBackup_keeps_pages_bookmarks [OF r b p] by simp
  show "bookmarks restored = bookmarks (as_NotesData p)"
    using restoreFromBackup_keeps_pages_bookmarks [OF r b p] by simp
next
  show "pages (createDefaultNotes lib now) = ['''']"
    by (simp add: createDefaultNotes_def)
next
  show "bookmarks (createDefaultNotes lib now) = None"
    by (simp add: createDefaultNotes_def)
next
  assume f: "notesFile w = Some f" and j: "JSON_parse lib (content f) = Some (PObject j)"
    and v: "j_version j = None \<or> j_version j = Some 1"
    and n: "j_pages j = Some (PagesOther (ONum n))"
  have legacy: "looksLegacy (PObject j)"
    using v by (auto simp: looksLegacy_def)
  show "case fst (loadNotes lib cfg now w) of
          Inr (Unchecked u) \<Rightarrow>
            u_pages u = ONum n \<and> u_bookmarks u = [Some False] \<and> u_totalPages u = None
        | _ \<Rightarrow> False"
    by (simp add: loadNotes_pages_number [OF f j legacy n])
qed

theorem bookmarks_aligned_where_built_witness:
  "fst (loadNotes demo_lib demo_cfg 5000 (demo_world notes_text)) = Inr (Notes demo_loaded) \<and>
   bookmarksAligned demo_loaded \<and>
   fst (toggleBookmark demo_lib demo_cfg 5000 0 None (demo_world notes_text)) =
     Inr (Notes (demo_saved (Some [True, False]))) \<and>
   bookmarksAligned (demo_saved (Some [True, False])) \<and>
   fst (setBookmarks demo_lib demo_cfg 5000 [0, 1, 5, - 1] True (demo_world notes_text)) =
     Inr (Notes (demo_saved (Some [True, True]))) \<and>
   bookmarksAligned (demo_saved (Some [True, True])) \<and>
   fst (saveNotes demo_lib demo_cfg 5000
          (demo_doc ''1970-01-01T00:00:01.000Z'' 0 [''p0'', ''p1''] None) False
          (demo_world notes_text)) = Inr (demo_saved None) \<and>
   bookmarks (demo_saved None) =
     bookmarks (demo_doc ''1970-01-01T00:00:01.000Z'' 0 [''p0'', ''p1''] None) \<and>
   fst (restoreFromBackup demo_lib demo_cfg 5000 ''backup-1970-01-01T00-00-00.json''
          demo_world_with_backup) = Inr (demo_saved None) \<and>
   backupEntry demo_world_with_backup ''backup-1970-01-01T00-00-00.json'' =
     Some \<lparr> content = old_notes_text, mtime = 900 \<rparr> \<and>
   JSON_parse demo_lib (content \<lparr> content = old_notes_text, mtime = 900 \<rparr>) =
     Some (PObject (notes_json\<lparr>j_bookmarks := None\<rparr>)) \<and>
   bookmarks (demo_saved None) =
     bookmarks (as_NotesData (PObject (notes_json\<lparr>j_bookmarks := None\<rparr>))) \<and>
   notesFile (demo_world pages_number_text) =
     Some \<lparr> content = pages_number_text, mtime = 1000 \<rparr> \<and>
   JSON_parse demo_lib (content \<lparr> content = pages_number_text, mtime = 1000 \<rparr>) =
     Some (PObject pages_number_json) \<and>
   j_version pages_number_json = None \<and>
   j_pages pages_number_json = Some (PagesOther (ONum 7)) \<and>
   fst (loadNotes demo_lib demo_cfg 5000 (demo_world pages_number_text)) =
     Inr (Unchecked demo_unchecked) \<and>
   u_pages demo_unchecked = ONum 7 \<and> u_bookmarks demo_unchecked = [Some False] \<and>
   u_totalPages demo_unchecked = None"
proof -
  have h5: "JSON_parse demo_lib (content \<lparr> content = old_notes_text, mtime = 900 \<rparr>) =
              Some (PObject (notes_json\<lparr>j_bookmarks := None\<rparr>))"
    by (simp add: demo_parse_texts)
  have h1: "fst (loadNotes demo_lib demo_cfg 5000 (demo_world notes_text)) = Inr (Notes demo_loaded)"
    by (simp add: demo_load)
  have h6: "notesFile (demo_world pages_number_text) =
              Some \<lparr> content = pages_number_text, mtime = 1000 \<rparr>"
    by (simp add: demo_world_def)
  have h7: "JSON_parse demo_lib (content \<lparr> content = pages_number_text, mtime = 1000 \<rparr>) =
              Some (PObject pages_number_json)"
    by (simp add: demo_parse_texts)
  have h8: "j_version pages_number_json = None"
    "j_pages pages_number_json = Some (PagesOther (ONum 7))"
    by (simp_all add: pages_number_json_def)
  note h2 = demo_toggle
  note h3 = demo_setBookmarks
  note h4 = demo_save
  note h9 = demo_load_pages_number
  have first:
    "bookmarksAligned demo_loaded \<and>
     bookmarksAligned (demo_saved (Some [True, False])) \<and>
     bookmarksAligned (demo_saved (Some [True, True])) \<and>
     bookmarks (demo_saved None) =
       bookmarks (demo_doc ''1970-01-01T00:00:01.000Z'' 0 [''p0'', ''p1''] None)"
    using h1 h2 h3 h4
      bookmarks_aligned_where_built [where lib = demo_lib and cfg = demo_cfg and now = 5000
        and w = "demo_world notes_text" and loaded = demo_loaded
        and pageIndex = 0 and val = None and toggled = "demo_saved (Some [True, False])"
        and indices = "[0, 1, 5, - 1]" and v = True and changed = "demo_saved (Some [True, True])"
        and notesData = "demo_doc ''1970-01-01T00:00:01.000Z'' 0 [''p0'', ''p1''] None"
        and skip = False and saved = "demo_saved None"]
    by simp
  have second:
    "bookmarks (demo_saved None) =
       bookmarks (as_NotesData (PObject (notes_json\<lparr>j_bookmarks := None\<rparr>)))"
    using bookmarks_aligned_where_built [where lib = demo_lib and cfg = demo_cfg and now = 5000
        and w = demo_world_with_backup
        and backupPath = "''backup-1970-01-01T00-00-00.json''"
        and restored = "demo_saved None"
        and b = "\<lparr> content = old_notes_text, mtime = 900 \<rparr>"
        and p = "PObject (notes_json\<lparr>j_bookmarks := None\<rparr>)"]
      demo_restore demo_backup_entry h5
    by simp
  have third:
    "u_pages demo_unchecked = ONum 7 \<and> u_bookmarks demo_unchecked = [Some False] \<and>
     u_totalPages demo_unchecked = None"
    using bookmarks_aligned_where_built [where lib = demo_lib and cfg = demo_cfg and now = 5000
        and w = "demo_world pages_number_text"
        and f = "\<lparr> content = pages_number_text, mtime = 1000 \<rparr>"
        and j = pages_number_json and n = 7]
      h6 h7 h8 h9
    by simp
  show ?thesis
    using h1 h2 h3 h4 h5 h6 h7 h8 h9 first second third demo_restore demo_backup_entry
    by simp
qed

theorem default_notes_without_bookmarks_counterexample:
  "\<not> bookmarksAligned (createDefaultNotes demo_lib 5000) \<and>
   pages (createDefaultNotes demo_lib 5000) = [''''] \<and>
   bookmarks (createDefaultNotes demo_lib 5000) = None \<and>
   fst (loadNotes demo_lib demo_cfg 5000 (demo_world pages_number_text)) =
     Inr (Unchecked demo_unchecked) \<and>
   u_pages demo_unchecked = ONum 7 \<and> u_bookmarks demo_unchecked = [Some False]"
  by (simp add: bookmarksAligned_def createDefaultNotes_def demo_load_pages_number
                demo_unchecked_def)

lemma migrateLegacy_not_legacy: "\<not> looksLegacy p \<Longrightarrow> migrateLegacy lib now f p w = (None, w)"
  by (simp add: migrateLegacy_def)

lemma loadNotes_plain:
  assumes "notesFile w = Some f" "JSON_parse lib (content f) = Some p" "\<not> looksLegacy p"
    and "bookmarksAligned (as_NotesData p)"
    and "fst (loadNotes lib cfg now w) = Inr (Notes d)"
  shows "snd (loadNotes lib cfg now w) = w\<lparr>lastKnownModTime := mtime f\<rparr>"
  using assms
  by (subst loadNotes.simps, subst (asm) (2) loadNotes.simps)
     (auto simp: migrateLegacy_not_legacy Let_def bookmarksMismatch_aligned
                 bookmarksAligned_withFileModTime
           split: sum.splits if_splits)

lemma migrateLegacy_Notes:
  assumes "migrateLegacy lib now f p w = (Some (Notes d), w1)"
  shows "w1 = writeFile (JSON_stringify lib d) now
                (copyFile f (preMigrationFileName lib now) now (ensureBackupDirectory w))"
  using assms
  by (auto simp: migrateLegacy_def Let_def
           split: if_splits parsed.splits sum.splits)

lemma migrateLegacy_fails_invalid:
  assumes "looksLegacy p" "migrateLegacy lib now f p w = (None, w1)"
  shows "isValidNotesData p = Inr False"
  using assms
  by (auto simp: migrateLegacy_def Let_def convertLegacyData_unchecked_def isValidNotesData_def
                 looksLegacy_def
           split: if_splits parsed.splits sum.splits option.splits pages_json.splits)

lemma loadNotes_legacy_Notes:
  assumes "notesFile w = Some f" "JSON_parse lib (content f) = Some p" "looksLegacy p"
    and "fst (loadNotes lib cfg now w) = Inr (Notes d)"
  shows "snd (loadNotes lib cfg now w) =
           writeFile (JSON_stringify lib d) now
             (copyFile f (preMigrationFileName lib now) now (ensureBackupDirectory w))"
proof (cases "migrateLegacy lib now f p w")
  case (Pair m w1)
  show ?thesis
  proof (cases m)
    case None
    then have "isValidNotesData p = Inr False"
      using migrateLegacy_fails_invalid [OF assms(3)] Pair by simp
    then have "fst (loadNotes lib cfg now w) = Inl Invalid_notes_data_format"
      using assms(1,2) Pair None by (simp add: loadNotes.simps)
    then show ?thesis using assms(4) by simp
  next
    case (Some l)
    then have l: "loadNotes lib cfg now w = (Inr l, w1)"
      using assms(1,2) Pair by (simp add: loadNotes.simps)
    then have "l = Notes d" using assms(4) by simp
    then show ?thesis
      using migrateLegacy_Notes [of lib now f p w d w1] Pair Some l by simp
  qed
qed

lemma saveNotes_at_watermark:
  assumes "notesFile w = Some f" "lastKnownModTime w = mtime f"
  shows "saveNotes lib cfg now notesData False w = writeNotes lib cfg now notesData w"
  using assms by (simp add: saveNotes.simps)

lemma loadNotes_heals:
  assumes "notesFile w = Some f" "JSON_parse lib (content f) = Some p" "\<not> looksLegacy p"
    and "\<not> bookmarksAligned (as_NotesData p)"
    and "fst (loadNotes lib cfg now w) = Inr (Notes d)"
  shows "notesFile (snd (loadNotes lib cfg now w)) =
           Some \<lparr> content = JSON_stringify lib
                               (stampNotes lib now (this_deviceId w)
                                  (freshBookmarks (withFileModTime (mtime f) (as_NotesData p)))),
                  mtime = now \<rparr>"
proof -
  let ?w2 = "w\<lparr>lastKnownModTime := mtime f\<rparr>"
  let ?doc = "freshBookmarks (withFileModTime (mtime f) (as_NotesData p))"
  have s: "saveNotes lib cfg now ?doc False ?w2 = writeNotes lib cfg now ?doc ?w2"
    using assms(1) by (simp add: saveNotes_at_watermark)
  have valid: "isValidNotesData p = Inr True"
    using assms(1,2,3,5)
    by (subst (asm) loadNotes.simps)
       (auto simp: migrateLegacy_not_legacy split: sum.splits if_splits)
  have "loadNotes lib cfg now w =
          (case writeNotes lib cfg now ?doc ?w2 of
             (Inl e, w3) \<Rightarrow> if e = ENOENT then (Inr Null, w3) else (Inl e, w3)
           | (Inr saved, w3) \<Rightarrow> (Inr (Notes saved), w3))"
    using assms(1,2,3,4) valid s
    by (subst loadNotes.simps)
       (simp add: migrateLegacy_not_legacy Let_def bookmarksMismatch_aligned
                  bookmarksAligned_withFileModTime)
  then show ?thesis
    by (simp add: writeNotes_eq writeFile_def)
qed

lemma toggleBookmark_rejects:
  assumes "loadNotes lib cfg now w = (Inr (Notes d), w1)"
    and "pageIndex < 0 \<or> int (length (pages d)) \<le> pageIndex"
  shows "toggleBookmark lib cfg now pageIndex val w = (Inr Null, w1)"
  using assms by (auto simp: toggleBookmark_def Let_def)

text \<open>
  Claim C6, amended.  There is a stored document, \<^verbatim>\<open>loadNotes\<close> returns it, and the index
  is outside the pages.  Then \<^verbatim>\<open>toggleBookmark\<close> returns \<^verbatim>\<open>null\<close>, not the document, and
  does nothing after the load: the state is the one \<^verbatim>\<open>loadNotes\<close> leaves.  When the file
  holds a document of the current format with one bookmark for each page, that state
  differs from the state before only in the watermark: the notes file and the backups
  are unchanged.  Otherwise the load writes the notes file at the clock reading: for a
  legacy file, the migrated document it returns, and the backup folder then holds the
  \<^verbatim>\<open>pre-migration\<close> copy of the file; for a file of the current format whose bookmarks are
  missing or not one for each page, the document with bookmarks rebuilt all false, stamped
  as \<^verbatim>\<open>saveNotes\<close> stamps it.
\<close>

theorem toggleBookmark_out_of_range:
  assumes "fst (loadNotes lib cfg now w) = Inr (Notes d)"
    and "pageIndex < 0 \<or> int (length (pages d)) \<le> pageIndex"
  shows "toggleBookmark lib cfg now pageIndex val w = (Inr Null, snd (loadNotes lib cfg now w)) \<and>
         (notesFile w = Some f \<and> JSON_parse lib (content f) = Some p \<and> \<not> looksLegacy p \<and>
          bookmarksAligned (as_NotesData p) \<longrightarrow>
            snd (toggleBookmark lib cfg now pageIndex val w) = w\<lparr>lastKnownModTime := mtime f\<rparr>) \<and>
         (notesFile w = Some f \<and> JSON_parse lib (content f) = Some p \<and> looksLegacy p \<longrightarrow>
            notesFile (snd (toggleBookmark lib cfg now pageIndex val w)) =
              Some \<lparr> content = JSON_stringify lib d, mtime = now \<rparr> \<and>
            backupEntry (snd (toggleBookmark lib cfg now pageIndex val w))
              (''pre-migration-'' @
               map (\<lambda>c. if c = CHR '':'' \<or> c = CHR ''.'' then CHR ''-'' else c)
                 (toISOString lib now) @
               ''.json'') =
              Some \<lparr> content = content f, mtime = now \<rparr>) \<and>
         (notesFile w = Some f \<and> JSON_parse lib (content f) = Some p \<and> \<not> looksLegacy p \<and>
          \<not> bookmarksAligned (as_NotesData p) \<longrightarrow>
            notesFile (snd (toggleBookmark lib cfg now pageIndex val w)) =
              Some \<lparr> content =
                       JSON_stringify lib
                         ((as_NotesData p)
                            \<lparr> lastModified := toISOString lib now,
                              deviceId := this_deviceId w,
                              bookmarks := Some (replicate (length (pages (as_NotesData p))) False),
                              metadata :=
                                \<lparr> totalPages = int (length (pages (as_NotesData p))),
                                  createdAt = createdAt (metadata (as_NotesData p)),
                                  syncStatus = syncStatus (metadata (as_NotesData p)),
                                  fileModTime =
                                    (if fileModTime (metadata (as_NotesData p)) = None \<or>
                                        fileModTime (metadata (as_NotesData p)) = Some 0
                                     then Some (mtime f)
                                     else fileModTime (metadata (as_NotesData p))) \<rparr> \<rparr>),
                     mtime = now \<rparr>)"
proof -
  have l: "loadNotes lib cfg now w = (Inr (Notes d), snd (loadNotes lib cfg now w))"
    using assms(1) by (simp add: prod_eq_iff)
  have t: "toggleBookmark lib cfg now pageIndex val w = (Inr Null, snd (loadNotes lib cfg now w))"
    using toggleBookmark_rejects [OF l assms(2)] .
  have plain: "notesFile w = Some f \<and> JSON_parse lib (content f) = Some p \<and> \<not> looksLegacy p \<and>
          bookmarksAligned (as_NotesData p) \<longrightarrow>
            snd (toggleBookmark lib cfg now pageIndex val w) = w\<lparr>lastKnownModTime := mtime f\<rparr>"
    using t loadNotes_plain [of w f lib p cfg now d] assms(1) by simp
  have legacy: "notesFile w = Some f \<and> JSON_parse lib (content f) = Some p \<and> looksLegacy p \<longrightarrow>
            notesFile (snd (toggleBookmark lib cfg now pageIndex val w)) =
              Some \<lparr> content = JSON_stringify lib d, mtime = now \<rparr> \<and>
            backupEntry (snd (toggleBookmark lib cfg now pageIndex val w))
              (''pre-migration-'' @
               map (\<lambda>c. if c = CHR '':'' \<or> c = CHR ''.'' then CHR ''-'' else c)
                 (toISOString lib now) @
               ''.json'') =
              Some \<lparr> content = content f, mtime = now \<rparr>"
  proof (intro impI, elim conjE)
    assume f: "notesFile w = Some f" and p: "JSON_parse lib (content f) = Some p"
      and lg: "looksLegacy p"
    obtain dir0 where dir0:
      "backupDir (copyFile f (preMigrationFileName lib now) now (ensureBackupDirectory w)) =
         Some dir0"
      "map_of dir0 (preMigrationFileName lib now) = Some \<lparr> content = content f, mtime = now \<rparr>"
      using backup_after_copy by blast
    show "notesFile (snd (toggleBookmark lib cfg now pageIndex val w)) =
              Some \<lparr> content = JSON_stringify lib d, mtime = now \<rparr> \<and>
            backupEntry (snd (toggleBookmark lib cfg now pageIndex val w))
              (''pre-migration-'' @
               map (\<lambda>c. if c = CHR '':'' \<or> c = CHR ''.'' then CHR ''-'' else c)
                 (toISOString lib now) @
               ''.json'') =
              Some \<lparr> content = content f, mtime = now \<rparr>"
      using dir0 unfolding preMigrationFileName_eq [symmetric]
      by (simp add: t loadNotes_legacy_Notes [OF f p lg assms(1)] writeFile_def backupEntry_def)
  qed
  have heal: "notesFile w = Some f \<and> JSON_parse lib (content f) = Some p \<and> \<not> looksLegacy p \<and>
          \<not> bookmarksAligned (as_NotesData p) \<longrightarrow>
            notesFile (snd (toggleBookmark lib cfg now pageIndex val w)) =
              Some \<lparr> content =
                       JSON_stringify lib
                         ((as_NotesData p)
                            \<lparr> lastModified := toISOString lib now,
                              deviceId := this_deviceId w,
                              bookmarks := Some (replicate (length (pages (as_NotesData p))) False),
                              metadata :=
                                \<lparr> totalPages = int (length (pages (as_NotesData p))),
                                  createdAt = createdAt (metadata (as_NotesData p)),
                                  syncStatus = syncStatus (metadata (as_NotesData p)),
                                  fileModTime =
                                    (if fileModTime (metadata (as_NotesData p)) = None \<or>
                                        fileModTime (metadata (as_NotesData p)) = Some 0
                                     then Some (mtime f)
                                     else fileModTime (metadata (as_NotesData p))) \<rparr> \<rparr>),
                     mtime = now \<rparr>"
  proof (intro impI, elim conjE)
    assume f: "notesFile w = Some f" and p: "JSON_parse lib (content f) = Some p"
      and lg: "\<not> looksLegacy p" and na: "\<not> bookmarksAligned (as_NotesData p)"
    have doc: "stampNotes lib now (this_deviceId w)
                 (freshBookmarks (withFileModTime (mtime f) (as_NotesData p))) =
               (as_NotesData p)
                  \<lparr> lastModified := toISOString lib now,
                    deviceId := this_deviceId w,
                    bookmarks := Some (replicate (length (pages (as_NotesData p))) False),
                    metadata :=
                      \<lparr> totalPages = int (length (pages (as_NotesData p))),
                        createdAt = createdAt (metadata (as_NotesData p)),
                        syncStatus = syncStatus (metadata (as_NotesData p)),
                        fileModTime =
                          (if fileModTime (metadata (as_NotesData p)) = None \<or>
                              fileModTime (metadata (as_NotesData p)) = Some 0
                           then Some (mtime f)
                           else fileModTime (metadata (as_NotesData p))) \<rparr> \<rparr>"
      by (simp add: stampNotes_def freshBookmarks_def withFileModTime_def)
    show "notesFile (snd (toggleBookmark lib cfg now pageIndex val w)) =
              Some \<lparr> content =
                       JSON_stringify lib
                         ((as_NotesData p)
                            \<lparr> lastModified := toISOString lib now,
                              deviceId := this_deviceId w,
                              bookmarks := Some (replicate (length (pages (as_NotesData p))) False),
                              metadata :=
                                \<lparr> totalPages = int (length (pages (as_NotesData p))),
                                  createdAt = createdAt (metadata (as_NotesData p)),
                                  syncStatus = syncStatus (metadata (as_NotesData p)),
                                  fileModTime =
                                    (if fileModTime (metadata (as_NotesData p)) = None \<or>
                                        fileModTime (metadata (as_NotesData p)) = Some 0
                                     then Some (mtime f)
                                     else fileModTime (metadata (as_NotesData p))) \<rparr> \<rparr>),
                     mtime = now \<rparr>"
      unfolding doc [symmetric]
      by (simp add: t loadNotes_heals [OF f p lg na assms(1)])
  qed
  show ?thesis
    using t plain legacy heal by blast
qed

theorem toggleBookmark_out_of_range_witness:
  "fst (loadNotes demo_lib demo_cfg 5000 (demo_world notes_text)) = Inr (Notes demo_loaded) \<and>
   ((7::int) < 0 \<or> int (length (pages demo_loaded)) \<le> 7) \<and>
   notesFile (demo_world notes_text) = Some \<lparr> content = notes_text, mtime = 1000 \<rparr> \<and>
   JSON_parse demo_lib (content \<lparr> content = notes_text, mtime = 1000 \<rparr>) =
     Some (PObject notes_json) \<and>
   \<not> looksLegacy (PObject notes_json) \<and>
   bookmarksAligned (as_NotesData (PObject notes_json)) \<and>
   toggleBookmark demo_lib demo_cfg 5000 7 None (demo_world notes_text) =
     (Inr Null, snd (loadNotes demo_lib demo_cfg 5000 (demo_world notes_text))) \<and>
   snd (toggleBookmark demo_lib demo_cfg 5000 7 None (demo_world notes_text)) =
     (demo_world notes_text)\<lparr>lastKnownModTime := 1000\<rparr> \<and>
   fst (loadNotes demo_lib demo_cfg 5000 (demo_world legacy_text)) = Inr (Notes demo_migrated) \<and>
   ((7::int) < 0 \<or> int (length (pages demo_migrated)) \<le> 7) \<and>
   notesFile (demo_world legacy_text) = Some \<lparr> content = legacy_text, mtime = 1000 \<rparr> \<and>
   JSON_parse demo_lib (content \<lparr> content = legacy_text, mtime = 1000 \<rparr>) =
     Some (PObject legacy_json) \<and>
   looksLegacy (PObject legacy_json) \<and>
   notesFile (snd (toggleBookmark demo_lib demo_cfg 5000 7 None (demo_world legacy_text))) =
     Some \<lparr> content = JSON_stringify demo_lib demo_migrated, mtime = 5000 \<rparr> \<and>
   backupEntry (snd (toggleBookmark demo_lib demo_cfg 5000 7 None (demo_world legacy_text)))
     ''pre-migration-1970-01-01T00-00-05-000Z.json'' =
     Some \<lparr> content = legacy_text, mtime = 5000 \<rparr> \<and>
   fst (loadNotes demo_lib demo_cfg 5000 (demo_world old_notes_text)) =
     Inr (Notes (demo_saved (Some [False, False]))) \<and>
   ((7::int) < 0 \<or> int (length (pages (demo_saved (Some [False, False])))) \<le> 7) \<and>
   notesFile (demo_world old_notes_text) = Some \<lparr> content = old_notes_text, mtime = 1000 \<rparr> \<and>
   JSON_parse demo_lib (content \<lparr> content = old_notes_text, mtime = 1000 \<rparr>) =
     Some (PObject (notes_json\<lparr>j_bookmarks := None\<rparr>)) \<and>
   \<not> looksLegacy (PObject (notes_json\<lparr>j_bookmarks := None\<rparr>)) \<and>
   \<not> bookmarksAligned (as_NotesData (PObject (notes_json\<lparr>j_bookmarks := None\<rparr>))) \<and>
   notesFile (snd (toggleBookmark demo_lib demo_cfg 5000 7 None (demo_world old_notes_text))) =
     Some \<lparr> content =
              JSON_stringify demo_lib
                ((demo_saved (Some [False, False]))
                   \<lparr>metadata := (metadata (demo_saved None))\<lparr>fileModTime := Some 1000\<rparr>\<rparr>),
            mtime = 5000 \<rparr>"
proof -
  have a1: "fst (loadNotes demo_lib demo_cfg 5000 (demo_world notes_text)) = Inr (Notes demo_loaded)"
    by (simp add: demo_load)
  have a2: "(7::int) < 0 \<or> int (length (pages demo_loaded)) \<le> 7"
    by (simp add: demo_loaded_def)
  have a3: "notesFile (demo_world notes_text) = Some \<lparr> content = notes_text, mtime = 1000 \<rparr>"
    by (simp add: demo_world_def)
  have a4: "JSON_parse demo_lib (content \<lparr> content = notes_text, mtime = 1000 \<rparr>) =
              Some (PObject notes_json)"
    by (simp add: demo_parse_texts)
  have a5: "\<not> looksLegacy (PObject notes_json)"
    by (simp add: looksLegacy_def notes_json_def)
  have a6: "bookmarksAligned (as_NotesData (PObject notes_json))"
    by (simp add: bookmarksAligned_def as_NotesData_def notes_json_def)
  have a: "toggleBookmark demo_lib demo_cfg 5000 7 None (demo_world notes_text) =
             (Inr Null, snd (loadNotes demo_lib demo_cfg 5000 (demo_world notes_text))) \<and>
           snd (toggleBookmark demo_lib demo_cfg 5000 7 None (demo_world notes_text)) =
             (demo_world notes_text)\<lparr>lastKnownModTime := 1000\<rparr>"
    using a3 a4 a5 a6
      toggleBookmark_out_of_range [OF a1 a2, of None "\<lparr> content = notes_text, mtime = 1000 \<rparr>"
        "PObject notes_json"]
    by auto
  have b1: "fst (loadNotes demo_lib demo_cfg 5000 (demo_world legacy_text)) =
              Inr (Notes demo_migrated)"
    by (rule demo_load_legacy)
  have b2: "(7::int) < 0 \<or> int (length (pages demo_migrated)) \<le> 7"
    by (simp add: demo_migrated_def)
  have b3: "notesFile (demo_world legacy_text) = Some \<lparr> content = legacy_text, mtime = 1000 \<rparr>"
    by (simp add: demo_world_def)
  have b4: "JSON_parse demo_lib (content \<lparr> content = legacy_text, mtime = 1000 \<rparr>) =
              Some (PObject legacy_json)"
    by (simp add: demo_parse_texts)
  have b5: "looksLegacy (PObject legacy_json)"
    by (simp add: looksLegacy_def legacy_json_def)
  have b: "notesFile (snd (toggleBookmark demo_lib demo_cfg 5000 7 None (demo_world legacy_text))) =
             Some \<lparr> content = JSON_stringify demo_lib demo_migrated, mtime = 5000 \<rparr> \<and>
           backupEntry (snd (toggleBookmark demo_lib demo_cfg 5000 7 None (demo_world legacy_text)))
             ''pre-migration-1970-01-01T00-00-05-000Z.json'' =
             Some \<lparr> content = legacy_text, mtime = 5000 \<rparr>"
    using b3 b4 b5
      toggleBookmark_out_of_range [OF b1 b2, of None "\<lparr> content = legacy_text, mtime = 1000 \<rparr>"
        "PObject legacy_json"]
    unfolding demo_premigration_name
    by auto
  have c1: "fst (loadNotes demo_lib demo_cfg 5000 (demo_world old_notes_text)) =
              Inr (Notes (demo_saved (Some [False, False])))"
    by (rule demo_load_old)
  have c2: "(7::int) < 0 \<or> int (length (pages (demo_saved (Some [False, False])))) \<le> 7"
    by (simp add: demo_saved_def)
  have c3: "notesFile (demo_world old_notes_text) =
              Some \<lparr> content = old_notes_text, mtime = 1000 \<rparr>"
    by (simp add: demo_world_def)
  have c4: "JSON_parse demo_lib (content \<lparr> content = old_notes_text, mtime = 1000 \<rparr>) =
              Some (PObject (notes_json\<lparr>j_bookmarks := None\<rparr>))"
    by (simp add: demo_parse_texts)
  have c5: "\<not> looksLegacy (PObject (notes_json\<lparr>j_bookmarks := None\<rparr>))"
    by (simp add: looksLegacy_def notes_json_def)
  have c6: "\<not> bookmarksAligned (as_NotesData (PObject (notes_json\<lparr>j_bookmarks := None\<rparr>)))"
    by (simp add: bookmarksAligned_def as_NotesData_def notes_json_def)
  have doc: "(as_NotesData (PObject (notes_json\<lparr>j_bookmarks := None\<rparr>)))
               \<lparr> lastModified := toISOString demo_lib 5000,
                 deviceId := this_deviceId (demo_world old_notes_text),
                 bookmarks := Some (replicate
                    (length (pages (as_NotesData (PObject (notes_json\<lparr>j_bookmarks := None\<rparr>)))))
                    False),
                 metadata :=
                   \<lparr> totalPages =
                       int (length (pages (as_NotesData (PObject (notes_json\<lparr>j_bookmarks := None\<rparr>))))),
                     createdAt =
                       createdAt (metadata (as_NotesData (PObject (notes_json\<lparr>j_bookmarks := None\<rparr>)))),
                     syncStatus =
                       syncStatus (metadata (as_NotesData (PObject (notes_json\<lparr>j_bookmarks := None\<rparr>)))),
                     fileModTime =
                       (if fileModTime (metadata (as_NotesData (PObject (notes_json\<lparr>j_bookmarks := None\<rparr>)))) = None \<or>
                           fileModTime (metadata (as_NotesData (PObject (notes_json\<lparr>j_bookmarks := None\<rparr>)))) = Some 0
                        then Some (mtime \<lparr> content = old_notes_text, mtime = 1000 \<rparr>)
                        else fileModTime (metadata (as_NotesData (PObject (notes_json\<lparr>j_bookmarks := None\<rparr>))))) \<rparr> \<rparr> =
             (demo_saved (Some [False, False]))
                \<lparr>metadata := (metadata (demo_saved None))\<lparr>fileModTime := Some 1000\<rparr>\<rparr>"
    by code_simp
  have c: "notesFile (snd (toggleBookmark demo_lib demo_cfg 5000 7 None
                             (demo_world old_notes_text))) =
             Some \<lparr> content =
                      JSON_stringify demo_lib
                        ((demo_saved (Some [False, False]))
                           \<lparr>metadata := (metadata (demo_saved None))\<lparr>fileModTime := Some 1000\<rparr>\<rparr>),
                    mtime = 5000 \<rparr>"
    using c3 c4 c5 c6
      toggleBookmark_out_of_range [OF c1 c2, of None
        "\<lparr> content = old_notes_text, mtime = 1000 \<rparr>"
        "PObject (notes_json\<lparr>j_bookmarks := None\<rparr>)"]
    unfolding doc
    by blast
  show ?thesis
    using a1 a2 a3 a4 a5 a6 a b1 b2 b3 b4 b5 b c1 c2 c3 c4 c5 c6 c by blast
qed

theorem toggleBookmark_out_of_range_counterexample:
  "fst (loadNotes demo_lib demo_cfg 5000 (demo_world notes_text)) = Inr (Notes demo_loaded) \<and>
   pages demo_loaded = [''p0'', ''p1''] \<and>
   fst (toggleBookmark demo_lib demo_cfg 5000 7 None (demo_world notes_text)) = Inr Null \<and>
   fst (toggleBookmark demo_lib demo_cfg 5000 7 None (demo_world notes_text)) \<noteq>
     Inr (Notes demo_loaded) \<and>
   notesFile (snd (toggleBookmark demo_lib demo_cfg 5000 7 None (demo_world old_notes_text))) \<noteq>
     notesFile (demo_world old_notes_text)"
proof -
  have before: "notesFile (demo_world old_notes_text) =
                  Some \<lparr> content = old_notes_text, mtime = 1000 \<rparr>"
    by (simp add: demo_world_def)
  have rewritten:
    "notesFile (snd (toggleBookmark demo_lib demo_cfg 5000 7 None (demo_world old_notes_text))) \<noteq>
       notesFile (demo_world old_notes_text)"
    unfolding before demo_toggle_rewrites_old_file by simp
  show ?thesis
    using rewritten by (simp add: demo_load demo_toggle_out_of_range demo_loaded_def)
qed
section \<open>Properties of the backup rotation\<close>




















end
